theory Spec2Isabelle
  imports Complex_Main
begin

section \<open>Feature clipping: the threshold calibrators of calibration/feature_clipping.py\<close>

subsection \<open>Python floats\<close>

text \<open>
  A Python float is a finite number, one of the two infinities, or NaN. A finite float is
  modelled by the real number it denotes, so the rounding of \<open>q/100\<close> and of
  \<open>C += 0.01\<close> is not part of the model; the infinities and NaN are, since the
  search starts from \<open>float("inf")\<close> and a metric may come back as NaN.
\<close>

datatype pyfloat = NaN | NInf | Fin real | PInf

text \<open>\<open>a < b\<close> on floats: every comparison with NaN is false.\<close>

fun flt :: "pyfloat \<Rightarrow> pyfloat \<Rightarrow> bool" where
  "flt NaN b = False"
| "flt NInf NaN = False"
| "flt NInf NInf = False"
| "flt NInf (Fin b) = True"
| "flt NInf PInf = True"
| "flt (Fin a) NaN = False"
| "flt (Fin a) NInf = False"
| "flt (Fin a) (Fin b) = (a < b)"
| "flt (Fin a) PInf = True"
| "flt PInf b = False"

text \<open>\<open>a > b\<close> is \<open>b < a\<close>.\<close>

definition fgt :: "pyfloat \<Rightarrow> pyfloat \<Rightarrow> bool" where
  "fgt a b = flt b a"

text \<open>Unary minus, as in \<open>-self.feature_clip\<close> and \<open>-float("inf")\<close>.\<close>

fun fneg :: "pyfloat \<Rightarrow> pyfloat" where
  "fneg NaN = NaN"
| "fneg NInf = PInf"
| "fneg (Fin a) = Fin (- a)"
| "fneg PInf = NInf"

text \<open>Addition, as in \<open>C += 0.01\<close>.\<close>

fun fadd :: "pyfloat \<Rightarrow> pyfloat \<Rightarrow> pyfloat" where
  "fadd NaN b = NaN"
| "fadd NInf NaN = NaN"
| "fadd NInf NInf = NInf"
| "fadd NInf (Fin b) = NInf"
| "fadd NInf PInf = NaN"
| "fadd (Fin a) NaN = NaN"
| "fadd (Fin a) NInf = NInf"
| "fadd (Fin a) (Fin b) = Fin (a + b)"
| "fadd (Fin a) PInf = PInf"
| "fadd PInf NaN = NaN"
| "fadd PInf NInf = NaN"
| "fadd PInf (Fin b) = PInf"
| "fadd PInf PInf = PInf"

text \<open>The threshold invariant of the data model, \<open>C \<ge> 0\<close>: false of NaN.\<close>

definition nonneg :: "pyfloat \<Rightarrow> bool" where
  "nonneg c = (c \<noteq> NaN \<and> \<not> flt c (Fin 0))"

subsection \<open>Tensors and the tensor library's clamp\<close>

text \<open>
  A feature or logit tensor is a batch of rows; a label vector is a list of class indices.
\<close>

type_synonym tensor = "pyfloat list list"
type_synonym labels = "int list"

text \<open>
  \<open>torch.clamp(x, min=lo, max=hi)\<close> with two scalar bounds, one element: the result is NaN
  when either bound or the element is NaN, and \<open>min(max(x, lo), hi)\<close> otherwise (so with
  \<open>lo > hi\<close> the result is \<open>hi\<close>).
\<close>

definition fmax :: "pyfloat \<Rightarrow> pyfloat \<Rightarrow> pyfloat" where
  "fmax a b = (if flt a b then b else a)"

definition fmin :: "pyfloat \<Rightarrow> pyfloat \<Rightarrow> pyfloat" where
  "fmin a b = (if flt b a then b else a)"

definition clamp1 :: "pyfloat \<Rightarrow> pyfloat \<Rightarrow> pyfloat \<Rightarrow> pyfloat" where
  "clamp1 lo hi x =
     (if lo = NaN \<or> hi = NaN \<or> x = NaN then NaN else fmin (fmax x lo) hi)"

text \<open>The same on a whole tensor; the result is a new tensor, the argument is not changed.\<close>

definition torch_clamp :: "tensor \<Rightarrow> pyfloat \<Rightarrow> pyfloat \<Rightarrow> tensor" where
  "torch_clamp x lo hi = map (map (clamp1 lo hi)) x"

subsection \<open>Collaborators\<close>

text \<open>
  The network, its classifier head and the two loss criteria are not part of this file of
  the repository. They are values the calibrators hold and call; a call either returns or
  raises, and an exception raised by a collaborator leaves the calling method at once. The
  value of a criterion is the float that \<open>.item()\<close> reads from the tensor it returns; a
  criterion whose call or whose \<open>.item()\<close> raises is one that raises.
\<close>

datatype error = Exception string

type_synonym criterion = "tensor \<Rightarrow> labels \<Rightarrow> error + pyfloat"

text \<open>
  \<open>model(input, return_feature=True)\<close> returns the pair (logits, features);
  \<open>model.classifier(features)\<close> is the classifier head.
\<close>

record 'i network =
  call_return_feature :: "'i \<Rightarrow> error + (tensor \<times> tensor)"
  network_classifier :: "tensor \<Rightarrow> error + tensor"

text \<open>\<open>torch.nn.Identity()\<close>.\<close>

definition Identity :: "tensor \<Rightarrow> error + tensor" where
  "Identity x = Inr x"

subsection \<open>FeatureClippingCalibrator and FeatureClippingCalibrator2\<close>

text \<open>
  The two classes have the same attributes. \<open>feature_clip_bottom\<close> does not exist before
  the first call of \<open>set_feature_clip\<close>.
\<close>

record 'i calibrator =
  cross_validate :: string
  feature_clip :: pyfloat
  feature_clip_bottom :: "pyfloat option"
  ece_criterion :: criterion
  nll_criterion :: criterion
  model :: "'i network"
  classifier :: "tensor \<Rightarrow> error + tensor"

text \<open>
  \<open>FeatureClippingCalibrator.__init__\<close>; the arguments \<open>ece\<close> and \<open>nll\<close> stand for the
  objects that \<open>ECELoss()\<close> and \<open>nn.CrossEntropyLoss()\<close> construct.
\<close>

definition init_calibrator ::
  "criterion \<Rightarrow> criterion \<Rightarrow> 'i network \<Rightarrow> string \<Rightarrow> 'i calibrator" where
  "init_calibrator ece nll m cv =
     \<lparr> cross_validate = cv, feature_clip = PInf, feature_clip_bottom = None,
       ece_criterion = ece, nll_criterion = nll, model = m,
       classifier = network_classifier m \<rparr>"

text \<open>\<open>FeatureClippingCalibrator2.__init__\<close>: the head is the identity.\<close>

definition init_calibrator2 ::
  "criterion \<Rightarrow> criterion \<Rightarrow> 'i network \<Rightarrow> string \<Rightarrow> 'i calibrator" where
  "init_calibrator2 ece nll m cv =
     \<lparr> cross_validate = cv, feature_clip = PInf, feature_clip_bottom = None,
       ece_criterion = ece, nll_criterion = nll, model = m,
       classifier = Identity \<rparr>"

definition get_feature_clip :: "'i calibrator \<Rightarrow> pyfloat" where
  "get_feature_clip self = feature_clip self"

text \<open>
  \<open>feature_clipping\<close> (the same text in both classes). A method is modelled as a function
  from the object and the arguments to the returned value and the object afterwards.
\<close>

definition feature_clipping :: "'i calibrator \<Rightarrow> tensor \<Rightarrow> tensor \<times> 'i calibrator" where
  "feature_clipping self features =
     (torch_clamp features (fneg (feature_clip self)) (feature_clip self), self)"

text \<open>\<open>forward\<close> (the same text in both classes).\<close>

definition forward :: "'i calibrator \<Rightarrow> tensor \<Rightarrow> (error + tensor) \<times> 'i calibrator" where
  "forward self features =
     (let (clipped, self) = feature_clipping self features
      in (classifier self clipped, self))"

subsection \<open>The grid search of set_feature_clip\<close>

text \<open>
  The local variables of \<open>set_feature_clip\<close>. The lists \<open>cs\<close>, \<open>eces\<close>, \<open>accs\<close> and \<open>nlls\<close>
  are the search trace.
\<close>

record search_locals =
  nll_val :: pyfloat
  ece_val :: pyfloat
  C_opt_nll :: pyfloat
  C_opt_ece :: pyfloat
  cs :: "pyfloat list"
  eces :: "pyfloat list"
  accs :: "pyfloat list"
  nlls :: "pyfloat list"

text \<open>The assignments before the loop.\<close>

definition initial_locals :: search_locals where
  "initial_locals =
     \<lparr> nll_val = PInf, ece_val = PInf, C_opt_nll = PInf, C_opt_ece = PInf,
       cs = [], eces = [], accs = [], nlls = [] \<rparr>"

text \<open>
  A \<open>for\<close> loop over a list of indices whose body may raise: the first exception ends the
  loop.
\<close>

primrec for_each ::
  "nat list \<Rightarrow> (nat \<Rightarrow> 's \<Rightarrow> error + 's) \<Rightarrow> 's \<Rightarrow> error + 's" where
  "for_each [] body s = Inr s"
| "for_each (q # qs) body s =
     (case body q s of Inl e \<Rightarrow> Inl e | Inr s' \<Rightarrow> for_each qs body s')"

text \<open>
  The last statement of the loop body appends
  \<open>(logits_after_clipping.argmax(dim=1) == labels_val).float().mean().item()\<close> to \<open>accs\<close>.
  The tensor library evaluates this expression, and it can raise after both criteria have
  returned: \<open>argmax(dim=1)\<close> raises on logits without a column, and \<open>==\<close> raises when the
  labels cannot be broadcast against the predictions. A list of rows does not record how
  many columns a tensor without rows has, so the expression is not defined on lists here:
  it is the argument \<open>accuracy\<close> of every function that evaluates it, a function that either
  returns the float or raises. What is proved of the search is proved for every such
  function; \<open>torch_accuracy\<close> below is the one that reads a list without rows as a tensor
  that has columns.
\<close>

type_synonym accuracy_expr = "tensor \<Rightarrow> labels \<Rightarrow> error + pyfloat"

text \<open>
  The body of the loop, at step \<open>q\<close>. The argument \<open>x\<close> is the tensor that is clipped:
  \<open>features_val\<close> in FeatureClippingCalibrator, \<open>logits_val\<close> in
  FeatureClippingCalibrator2; the two bodies are otherwise the same text.
\<close>

definition loop_body ::
  "accuracy_expr \<Rightarrow> tensor \<Rightarrow> labels \<Rightarrow> nat \<Rightarrow> 'i calibrator \<times> search_locals
     \<Rightarrow> error + ('i calibrator \<times> search_locals)" where
  "loop_body accuracy x labels_val q st =
     (let (self, l) = st;
          self = self\<lparr>feature_clip := Fin (real q / 100)\<rparr>;
          (clipped, self) = feature_clipping self x
      in case classifier self clipped of
           Inl e \<Rightarrow> Inl e
         | Inr logits_after_clipping \<Rightarrow>
        (case nll_criterion self logits_after_clipping labels_val of
           Inl e \<Rightarrow> Inl e
         | Inr after_clipping_nll \<Rightarrow>
        (case ece_criterion self logits_after_clipping labels_val of
           Inl e \<Rightarrow> Inl e
         | Inr after_clipping_ece \<Rightarrow>
           (let l = (if fgt (nll_val l) after_clipping_nll
                     then l\<lparr>C_opt_nll := feature_clip self, nll_val := after_clipping_nll\<rparr>
                     else l);
                l = (if fgt (ece_val l) after_clipping_ece
                     then l\<lparr>C_opt_ece := feature_clip self, ece_val := after_clipping_ece\<rparr>
                     else l);
                l = l\<lparr>cs := cs l @ [feature_clip self]\<rparr>;
                l = l\<lparr>eces := eces l @ [after_clipping_ece]\<rparr>;
                l = l\<lparr>nlls := nlls l @ [after_clipping_nll]\<rparr>
            in case accuracy logits_after_clipping labels_val of
                 Inl e \<Rightarrow> Inl e
               | Inr acc \<Rightarrow> Inr (self, l\<lparr>accs := accs l @ [acc]\<rparr>)))))"

text \<open>The assignments to \<open>self\<close> before the loop, and the loop over \<open>range(steps)\<close>.\<close>

definition scan ::
  "accuracy_expr \<Rightarrow> nat \<Rightarrow> tensor \<Rightarrow> labels \<Rightarrow> 'i calibrator
     \<Rightarrow> error + ('i calibrator \<times> search_locals)" where
  "scan accuracy steps x labels_val self =
     (let self = self\<lparr>feature_clip := PInf\<rparr>;
          self = self\<lparr>feature_clip_bottom := Some (fneg PInf)\<rparr>
      in for_each [0..<steps] (loop_body accuracy x labels_val) (self, initial_locals))"

text \<open>The selection after the loop: \<open>if\<close>, \<open>elif\<close>, and no \<open>else\<close>.\<close>

definition select_threshold :: "'i calibrator \<times> search_locals \<Rightarrow> 'i calibrator" where
  "select_threshold st =
     (let (self, l) = st
      in if cross_validate self = ''ece'' then self\<lparr>feature_clip := C_opt_ece l\<rparr>
         else if cross_validate self = ''nll'' then self\<lparr>feature_clip := C_opt_nll l\<rparr>
         else self)"

text \<open>\<open>FeatureClippingCalibrator.set_feature_clip\<close>: 2000 steps, on the features.\<close>

definition set_feature_clip ::
  "accuracy_expr \<Rightarrow> 'i calibrator \<Rightarrow> tensor \<Rightarrow> tensor \<Rightarrow> labels
     \<Rightarrow> error + 'i calibrator" where
  "set_feature_clip accuracy self features_val logits_val labels_val =
     (case scan accuracy 2000 features_val labels_val self of
        Inl e \<Rightarrow> Inl e
      | Inr st \<Rightarrow> Inr (select_threshold st))"

text \<open>\<open>FeatureClippingCalibrator2.set_feature_clip\<close>: 4000 steps, on the logits.\<close>

definition set_feature_clip2 ::
  "accuracy_expr \<Rightarrow> 'i calibrator \<Rightarrow> tensor \<Rightarrow> tensor \<Rightarrow> labels
     \<Rightarrow> error + 'i calibrator" where
  "set_feature_clip2 accuracy self features_val logits_val labels_val =
     (case scan accuracy 4000 logits_val labels_val self of
        Inl e \<Rightarrow> Inl e
      | Inr st \<Rightarrow> Inr (select_threshold st))"

subsection \<open>ModelWithFeatureClipping\<close>

record 'i model_with_feature_clipping =
  wrapped_model :: "'i network"
  wrapped_feature_clip :: pyfloat

definition init_model_with_feature_clipping ::
  "'i network \<Rightarrow> 'i model_with_feature_clipping" where
  "init_model_with_feature_clipping m =
     \<lparr> wrapped_model = m, wrapped_feature_clip = PInf \<rparr>"

definition wrapped_classifier ::
  "'i model_with_feature_clipping \<Rightarrow> tensor \<Rightarrow> error + tensor" where
  "wrapped_classifier self features = network_classifier (wrapped_model self) features"

definition wrapped_feature_clipping ::
  "'i model_with_feature_clipping \<Rightarrow> tensor \<Rightarrow> tensor \<times> 'i model_with_feature_clipping" where
  "wrapped_feature_clipping self features =
     (torch_clamp features (fneg (wrapped_feature_clip self)) (wrapped_feature_clip self), self)"

text \<open>
  The first part of \<open>ModelWithFeatureClipping.set_feature_clip\<close>: the network is run on every
  batch of the loader and the results are appended to three lists.
\<close>

primrec collect ::
  "'i network \<Rightarrow> ('i \<times> labels) list \<Rightarrow> tensor list \<times> labels list \<times> tensor list
     \<Rightarrow> error + (tensor list \<times> labels list \<times> tensor list)" where
  "collect m [] acc = Inr acc"
| "collect m (batch # rest) acc =
     (case call_return_feature m (fst batch) of
        Inl e \<Rightarrow> Inl e
      | Inr (logits, features) \<Rightarrow>
          (case acc of (logits_list, labels_list, features_list) \<Rightarrow>
             collect m rest
               (logits_list @ [logits], labels_list @ [snd batch], features_list @ [features])))"

text \<open>\<open>torch.cat\<close> along the batch dimension; it raises on an empty list of tensors.\<close>

definition torch_cat :: "'a list list \<Rightarrow> error + 'a list" where
  "torch_cat ts =
     (if ts = [] then Inl (Exception ''torch.cat(): expected a non-empty list of Tensors'')
      else Inr (concat ts))"

text \<open>The local variables of the loop of this variant.\<close>

record wrapped_locals =
  w_nll_val :: pyfloat
  w_ece_val :: pyfloat
  w_C_opt_nll :: pyfloat
  w_C_opt_ece :: pyfloat
  w_C :: pyfloat

definition wrapped_initial_locals :: wrapped_locals where
  "wrapped_initial_locals =
     \<lparr> w_nll_val = Fin (10 ^ 7), w_ece_val = Fin (10 ^ 7),
       w_C_opt_nll = PInf, w_C_opt_ece = PInf, w_C = Fin (1 / 100) \<rparr>"

text \<open>
  The body of \<open>for _ in range(1)\<close>. The clipped features go through the classifier twice,
  once for each criterion.
\<close>

definition wrapped_loop_body ::
  "criterion \<Rightarrow> criterion \<Rightarrow> tensor \<Rightarrow> labels \<Rightarrow> nat
     \<Rightarrow> 'i model_with_feature_clipping \<times> wrapped_locals
     \<Rightarrow> error + ('i model_with_feature_clipping \<times> wrapped_locals)" where
  "wrapped_loop_body nll_crit ece_crit features labels_all q st =
     (let (self, l) = st;
          self = self\<lparr>wrapped_feature_clip := w_C l\<rparr>
      in case wrapped_classifier self (fst (wrapped_feature_clipping self features)) of
           Inl e \<Rightarrow> Inl e
         | Inr logits1 \<Rightarrow>
        (case nll_crit logits1 labels_all of
           Inl e \<Rightarrow> Inl e
         | Inr after_clipping_nll \<Rightarrow>
        (case wrapped_classifier self (fst (wrapped_feature_clipping self features)) of
           Inl e \<Rightarrow> Inl e
         | Inr logits2 \<Rightarrow>
        (case ece_crit logits2 labels_all of
           Inl e \<Rightarrow> Inl e
         | Inr after_clipping_ece \<Rightarrow>
           (let l = (if fgt (w_nll_val l) after_clipping_nll
                     then l\<lparr>w_C_opt_nll := w_C l, w_nll_val := after_clipping_nll\<rparr>
                     else l);
                l = (if fgt (w_ece_val l) after_clipping_ece
                     then l\<lparr>w_C_opt_ece := w_C l, w_ece_val := after_clipping_ece\<rparr>
                     else l);
                l = l\<lparr>w_C := fadd (w_C l) (Fin (1 / 100))\<rparr>
            in Inr (self, l))))))"

text \<open>
  \<open>ModelWithFeatureClipping.set_feature_clip\<close>; the arguments \<open>nll_crit\<close> and \<open>ece_crit\<close>
  stand for the objects that \<open>nn.CrossEntropyLoss()\<close> and \<open>ECELoss()\<close> construct.
\<close>

definition wrapped_set_feature_clip ::
  "criterion \<Rightarrow> criterion \<Rightarrow> 'i model_with_feature_clipping \<Rightarrow> ('i \<times> labels) list \<Rightarrow> string
     \<Rightarrow> error + 'i model_with_feature_clipping" where
  "wrapped_set_feature_clip nll_crit ece_crit self valid_loader cv =
     (case collect (wrapped_model self) valid_loader ([], [], []) of
        Inl e \<Rightarrow> Inl e
      | Inr (logits_list, labels_list, features_list) \<Rightarrow>
     (case torch_cat logits_list of
        Inl e \<Rightarrow> Inl e
      | Inr logits \<Rightarrow>
     (case torch_cat labels_list of
        Inl e \<Rightarrow> Inl e
      | Inr labels_all \<Rightarrow>
     (case torch_cat features_list of
        Inl e \<Rightarrow> Inl e
      | Inr features \<Rightarrow>
     (case for_each [0..<1] (wrapped_loop_body nll_crit ece_crit features labels_all)
             (self, wrapped_initial_locals) of
        Inl e \<Rightarrow> Inl e
      | Inr (self, l) \<Rightarrow>
          Inr (if cv = ''ece'' then self\<lparr>wrapped_feature_clip := w_C_opt_ece l\<rparr>
               else self\<lparr>wrapped_feature_clip := w_C_opt_nll l\<rparr>))))))"

subsection \<open>What the calls of a step return\<close>

text \<open>
  The four calls of step \<open>q\<close> of the loop that can raise, on their own and in the order of
  the source: the classifier head on the tensor clipped at \<open>q/100\<close>, the two criteria on its
  result, and the accuracy expression on the same result. The value is the triple (NLL, ECE,
  accuracy) of the step, or the first exception.
\<close>

definition metrics_at ::
  "accuracy_expr \<Rightarrow> 'i calibrator \<Rightarrow> tensor \<Rightarrow> labels \<Rightarrow> nat
     \<Rightarrow> error + (pyfloat \<times> pyfloat \<times> pyfloat)" where
  "metrics_at accuracy self x labels_val q =
     (case classifier self
             (torch_clamp x (fneg (Fin (real q / 100))) (Fin (real q / 100))) of
        Inl e \<Rightarrow> Inl e
      | Inr logits_after_clipping \<Rightarrow>
     (case nll_criterion self logits_after_clipping labels_val of
        Inl e \<Rightarrow> Inl e
      | Inr after_clipping_nll \<Rightarrow>
     (case ece_criterion self logits_after_clipping labels_val of
        Inl e \<Rightarrow> Inl e
      | Inr after_clipping_ece \<Rightarrow>
     (case accuracy logits_after_clipping labels_val of
        Inl e \<Rightarrow> Inl e
      | Inr acc \<Rightarrow> Inr (after_clipping_nll, after_clipping_ece, acc)))))"

text \<open>
  The bookkeeping of one step, given the three values, and the local variables after \<open>n\<close>
  steps whose values are \<open>nl 0, ec 0, ac 0, \<dots>, nl (n - 1), ec (n - 1), ac (n - 1)\<close>.
\<close>

definition record_step ::
  "nat \<Rightarrow> pyfloat \<Rightarrow> pyfloat \<Rightarrow> pyfloat \<Rightarrow> search_locals \<Rightarrow> search_locals" where
  "record_step q after_clipping_nll after_clipping_ece acc l =
     (let l = (if fgt (nll_val l) after_clipping_nll
               then l\<lparr>C_opt_nll := Fin (real q / 100), nll_val := after_clipping_nll\<rparr>
               else l);
          l = (if fgt (ece_val l) after_clipping_ece
               then l\<lparr>C_opt_ece := Fin (real q / 100), ece_val := after_clipping_ece\<rparr>
               else l)
      in l\<lparr>cs := cs l @ [Fin (real q / 100)], eces := eces l @ [after_clipping_ece],
            nlls := nlls l @ [after_clipping_nll], accs := accs l @ [acc]\<rparr>)"

primrec locals_after ::
  "(nat \<Rightarrow> pyfloat) \<Rightarrow> (nat \<Rightarrow> pyfloat) \<Rightarrow> (nat \<Rightarrow> pyfloat) \<Rightarrow> nat \<Rightarrow> search_locals" where
  "locals_after nl ec ac 0 = initial_locals"
| "locals_after nl ec ac (Suc n) =
     record_step n (nl n) (ec n) (ac n) (locals_after nl ec ac n)"

text \<open>The value of \<open>self.feature_clip\<close> after \<open>n\<close> steps of the loop.\<close>

definition clip_after :: "nat \<Rightarrow> pyfloat" where
  "clip_after n = (if n = 0 then PInf else Fin (real (n - 1) / 100))"

text \<open>
  One running-best pair of the loop on its own: the pair (running-best value, best
  threshold) after \<open>n\<close> steps whose metric values are \<open>m 0, \<dots>, m (n - 1)\<close>.
\<close>

primrec running_best :: "(nat \<Rightarrow> pyfloat) \<Rightarrow> nat \<Rightarrow> pyfloat \<times> pyfloat" where
  "running_best m 0 = (PInf, PInf)"
| "running_best m (Suc n) =
     (if fgt (fst (running_best m n)) (m n) then (m n, Fin (real n / 100))
      else running_best m n)"

text \<open>
  What holds of the object and the local variables throughout the loop of the calibrator
  \<open>self\<close>: the threshold and both best-threshold trackers are non-negative, and the object
  differs from \<open>self\<close> in the two threshold attributes only.
\<close>

definition scan_inv :: "'i calibrator \<Rightarrow> 'i calibrator \<times> search_locals \<Rightarrow> bool" where
  "scan_inv self st =
     (nonneg (feature_clip (fst st)) \<and> nonneg (C_opt_nll (snd st)) \<and> nonneg (C_opt_ece (snd st))
      \<and> (\<exists>c b. fst st = self\<lparr>feature_clip := c, feature_clip_bottom := b\<rparr>))"

subsection \<open>Example objects\<close>

text \<open>
  A network whose classifier head returns its argument, a criterion that returns the same
  value on every call, and a criterion that, like a mean over the batch, is NaN on an empty
  label vector.
\<close>

definition example_network :: "unit network" where
  "example_network =
     \<lparr> call_return_feature = (\<lambda>u. Inr ([[Fin 2, Fin (- 2)]], [[Fin 3, Fin (- 3)]])),
       network_classifier = Inr \<rparr>"

definition const_criterion :: "pyfloat \<Rightarrow> criterion" where
  "const_criterion v = (\<lambda>logits labels_val. Inr v)"

definition mean_criterion :: criterion where
  "mean_criterion = (\<lambda>logits labels_val. Inr (if labels_val = [] then NaN else Fin 0))"

text \<open>
  A FeatureClippingCalibrator and a FeatureClippingCalibrator2 on that network, whose ECE
  criterion always returns \<open>e\<close> and whose NLL criterion always returns \<open>n\<close>.
\<close>

definition example_calibrator :: "pyfloat \<Rightarrow> pyfloat \<Rightarrow> string \<Rightarrow> unit calibrator" where
  "example_calibrator e n cv =
     init_calibrator (const_criterion e) (const_criterion n) example_network cv"

definition example_calibrator2 :: "pyfloat \<Rightarrow> pyfloat \<Rightarrow> string \<Rightarrow> unit calibrator" where
  "example_calibrator2 e n cv =
     init_calibrator2 (const_criterion e) (const_criterion n) example_network cv"

text \<open>
  The accuracy expression on lists of rows, where a tensor without rows is taken to have at
  least one column. \<open>argmax\<close> of a row is the index of its first greatest element, NaN
  counting as the greatest; a row without an element raises. The predictions are compared
  with the labels element by element, a single prediction or a single label being
  broadcast; other lengths that differ raise. The mean of no element is NaN.
\<close>

fun argmax_from :: "pyfloat \<Rightarrow> nat \<Rightarrow> nat \<Rightarrow> pyfloat list \<Rightarrow> nat" where
  "argmax_from best best_i i [] = best_i"
| "argmax_from best best_i i (v # vs) =
     (if best \<noteq> NaN \<and> (v = NaN \<or> flt best v) then argmax_from v i (Suc i) vs
      else argmax_from best best_i (Suc i) vs)"

definition torch_accuracy :: accuracy_expr where
  "torch_accuracy logits labels_val =
     (if [] \<in> set logits
      then Inl (Exception ''IndexError: argmax(): Expected reduction dim 1 to have non-zero size'')
      else
        (let preds = map (\<lambda>row. int (argmax_from (hd row) 0 1 (tl row))) logits;
             hits = (if length preds = length labels_val
                     then Some (map2 (\<lambda>p y. p = y) preds labels_val)
                     else if length preds = 1
                     then Some (map (\<lambda>y. hd preds = y) labels_val)
                     else if length labels_val = 1
                     then Some (map (\<lambda>p. p = hd labels_val) preds)
                     else None)
         in case hits of
              None \<Rightarrow> Inl (Exception ''RuntimeError: the sizes of the tensors must match'')
            | Some hs \<Rightarrow>
                Inr (if hs = [] then NaN
                     else Fin (real (length (filter id hs)) / real (length hs)))))"

section \<open>Properties\<close>

subsection \<open>Float comparison and clamp\<close>

text \<open>
  On the floats that are not NaN the comparison is a strict linear order with \<open>+\<infinity>\<close> on
  top; NaN is below and above nothing.
\<close>

lemma flt_irrefl: "\<not> flt a a"
  by (cases a) auto

lemma flt_trans: "flt a b \<Longrightarrow> flt b c \<Longrightarrow> flt a c"
  by (cases a; cases b; cases c) auto

lemma flt_PInf: "flt a b \<Longrightarrow> flt a PInf"
  by (cases a; cases b) auto

lemma flt_not_NaN: "flt a b \<Longrightarrow> a \<noteq> NaN \<and> b \<noteq> NaN"
  by (cases a; cases b) auto

lemma flt_total: "a \<noteq> NaN \<Longrightarrow> b \<noteq> NaN \<Longrightarrow> flt a b \<or> a = b \<or> flt b a"
  by (cases a; cases b) auto

lemma flt_asym: "flt a b \<Longrightarrow> \<not> flt b a"
  by (cases a; cases b) auto

lemma clamp1_inf: "clamp1 (fneg PInf) PInf x = x"
  by (cases x) (auto simp: clamp1_def fmin_def fmax_def)

lemma clamp1_idem: "clamp1 (fneg c) c (clamp1 (fneg c) c x) = clamp1 (fneg c) c x"
  by (cases c; cases x) (auto simp: clamp1_def fmin_def fmax_def)

lemma clamp1_cases:
  "nonneg c \<Longrightarrow> x \<noteq> NaN \<Longrightarrow>
   clamp1 (fneg c) c x = (if flt x (fneg c) then fneg c else if flt c x then c else x)"
  by (cases c; cases x) (auto simp: clamp1_def fmin_def fmax_def nonneg_def)

lemma torch_clamp_inf: "torch_clamp x (fneg PInf) PInf = x"
  by (simp add: torch_clamp_def clamp1_inf[simplified] map_idI)

lemma torch_clamp_idem:
  "torch_clamp (torch_clamp x (fneg c) c) (fneg c) c = torch_clamp x (fneg c) c"
  by (simp add: torch_clamp_def clamp1_idem)

subsection \<open>The search, when every call returns, and its invariant\<close>

text \<open>
  When the four calls of each of the first \<open>n\<close> steps return, the scan returns too, and its
  result is given by \<open>locals_after\<close>; each running-best pair is then either untouched or
  holds the first minimum of its metric. Whether or not the scan returns, every state it
  passes through satisfies \<open>scan_inv\<close>.
\<close>

lemma metrics_at_clip [simp]:
  "metrics_at accuracy (self\<lparr>feature_clip := c\<rparr>) x y q = metrics_at accuracy self x y q"
  "metrics_at accuracy (self\<lparr>feature_clip_bottom := b\<rparr>) x y q = metrics_at accuracy self x y q"
  by (simp_all add: metrics_at_def cong: sum.case_cong)

lemma swap_updates:
  "(self::'i calibrator)\<lparr>feature_clip_bottom := b, feature_clip := c\<rparr> = self\<lparr>feature_clip := c, feature_clip_bottom := b\<rparr>"
  by simp

lemma loop_body_eq:
  "loop_body accuracy x y q (self, l) =
     (case metrics_at accuracy self x y q of
        Inl e \<Rightarrow> Inl e
      | Inr (n, e, a) \<Rightarrow> Inr (self\<lparr>feature_clip := Fin (real q / 100)\<rparr>, record_step q n e a l))"
  by (auto simp add: loop_body_def metrics_at_def feature_clipping_def record_step_def Let_def
      split: sum.splits)

lemma for_each_append:
  "for_each (qs @ rs) body s =
     (case for_each qs body s of Inl e \<Rightarrow> Inl e | Inr s' \<Rightarrow> for_each rs body s')"
  by (induction qs arbitrary: s) (auto split: sum.splits)

lemma for_each_upt_Suc:
  "for_each [0..<Suc n] body s =
     (case for_each [0..<n] body s of Inl e \<Rightarrow> Inl e | Inr s' \<Rightarrow> body n s')"
  by (simp add: for_each_append split: sum.splits)

lemma loop_returns:
  assumes "\<forall>q<n. metrics_at accuracy self x y q = Inr (nl q, ec q, ac q)"
  shows "for_each [0..<n] (loop_body accuracy x y) (self\<lparr>feature_clip := PInf\<rparr>, initial_locals) =
           Inr (self\<lparr>feature_clip := clip_after n\<rparr>, locals_after nl ec ac n)"
  using assms
proof (induction n)
  case 0
  then show ?case by (simp add: clip_after_def)
next
  case (Suc n)
  then have IH: "for_each [0..<n] (loop_body accuracy x y) (self\<lparr>feature_clip := PInf\<rparr>, initial_locals) =
           Inr (self\<lparr>feature_clip := clip_after n\<rparr>, locals_after nl ec ac n)"
    and m: "metrics_at accuracy self x y n = Inr (nl n, ec n, ac n)" by simp_all
  show ?case
    unfolding for_each_upt_Suc IH
    by (simp add: loop_body_eq m clip_after_def)
qed

lemma scan_returns:
  assumes "\<forall>q<n. metrics_at accuracy self x y q = Inr (nl q, ec q, ac q)"
  shows "scan accuracy n x y self =
           Inr (self\<lparr>feature_clip := clip_after n, feature_clip_bottom := Some NInf\<rparr>,
                locals_after nl ec ac n)"
proof -
  have "\<forall>q<n. metrics_at accuracy (self\<lparr>feature_clip_bottom := Some NInf\<rparr>) x y q = Inr (nl q, ec q, ac q)"
    using assms by simp
  from loop_returns[OF this] show ?thesis
    by (simp add: scan_def Let_def swap_updates)
qed

lemma record_step_fields [simp]:
  "nll_val (record_step q a b c l) = (if fgt (nll_val l) a then a else nll_val l)"
  "C_opt_nll (record_step q a b c l) = (if fgt (nll_val l) a then Fin (real q / 100) else C_opt_nll l)"
  "ece_val (record_step q a b c l) = (if fgt (ece_val l) b then b else ece_val l)"
  "C_opt_ece (record_step q a b c l) = (if fgt (ece_val l) b then Fin (real q / 100) else C_opt_ece l)"
  "cs (record_step q a b c l) = cs l @ [Fin (real q / 100)]"
  "eces (record_step q a b c l) = eces l @ [b]"
  "nlls (record_step q a b c l) = nlls l @ [a]"
  "accs (record_step q a b c l) = accs l @ [c]"
  by (simp_all add: record_step_def Let_def)

lemma locals_after_nll:
  "running_best nl n = (nll_val (locals_after nl ec ac n), C_opt_nll (locals_after nl ec ac n))"
  by (induction n) (simp_all add: initial_locals_def)

lemma locals_after_ece:
  "running_best ec n = (ece_val (locals_after nl ec ac n), C_opt_ece (locals_after nl ec ac n))"
  by (induction n) (simp_all add: initial_locals_def)

lemma locals_after_cs:
  "cs (locals_after nl ec ac n) = map (\<lambda>q. Fin (real q / 100)) [0..<n]"
  "eces (locals_after nl ec ac n) = map ec [0..<n]"
  "nlls (locals_after nl ec ac n) = map nl [0..<n]"
  "accs (locals_after nl ec ac n) = map ac [0..<n]"
  by (induction n) (auto simp: initial_locals_def)

lemma not_flt_trans: "a \<noteq> NaN \<Longrightarrow> \<not> flt a b \<Longrightarrow> flt v b \<Longrightarrow> flt v a"
  by (cases a; cases b; cases v) auto

lemma running_best_inv:
  "(running_best m n = (PInf, PInf) \<and> (\<forall>j<n. \<not> flt (m j) PInf)) \<or>
   (\<exists>k<n. running_best m n = (m k, Fin (real k / 100)) \<and> flt (m k) PInf \<and>
      (\<forall>j<n. \<not> flt (m j) (m k)) \<and> (\<forall>j<k. m j = NaN \<or> flt (m k) (m j)))"
proof (induction n)
  case 0
  show ?case by simp
next
  case (Suc n)
  show ?case
  proof (cases "flt (m n) (fst (running_best m n))")
    case True
    have new: "running_best m (Suc n) = (m n, Fin (real n / 100))"
      using True by (simp add: fgt_def)
    have lt: "flt (m n) PInf" using True by (rule flt_PInf)
    have nn: "m n \<noteq> NaN" using True flt_not_NaN by blast
    have below: "\<forall>j<Suc n. \<not> flt (m j) (m n)"
    proof (intro allI impI)
      fix j assume "j < Suc n"
      show "\<not> flt (m j) (m n)"
      proof (cases "j = n")
        case True then show ?thesis by (simp add: flt_irrefl)
      next
        case False
        with \<open>j < Suc n\<close> have jn: "j < n" by simp
        from Suc.IH show ?thesis
        proof
          assume "running_best m n = (PInf, PInf) \<and> (\<forall>j<n. \<not> flt (m j) PInf)"
          then show ?thesis using jn flt_PInf by blast
        next
          assume "\<exists>k<n. running_best m n = (m k, Fin (real k / 100)) \<and> flt (m k) PInf \<and>
            (\<forall>j<n. \<not> flt (m j) (m k)) \<and> (\<forall>j<k. m j = NaN \<or> flt (m k) (m j))"
          then obtain k where k: "running_best m n = (m k, Fin (real k / 100))"
            "\<forall>j<n. \<not> flt (m j) (m k)" by blast
          from True k(1) have "flt (m n) (m k)" by simp
          then show ?thesis using k(2) jn flt_trans by blast
        qed
      qed
    qed
    have first: "\<forall>j<n. m j = NaN \<or> flt (m n) (m j)"
    proof (intro allI impI)
      fix j assume jn: "j < n"
      from below jn have "\<not> flt (m j) (m n)" by simp
      moreover have "m j \<noteq> m n"
      proof
        assume eq: "m j = m n"
        from Suc.IH show False
        proof
          assume "running_best m n = (PInf, PInf) \<and> (\<forall>j<n. \<not> flt (m j) PInf)"
          then show False using jn eq lt by auto
        next
          assume "\<exists>k<n. running_best m n = (m k, Fin (real k / 100)) \<and> flt (m k) PInf \<and>
            (\<forall>j<n. \<not> flt (m j) (m k)) \<and> (\<forall>j<k. m j = NaN \<or> flt (m k) (m j))"
          then obtain k where k: "running_best m n = (m k, Fin (real k / 100))"
            "\<forall>j<n. \<not> flt (m j) (m k)" by blast
          from True k(1) have "flt (m j) (m k)" using eq by simp
          then show False using k(2) jn by blast
        qed
      qed
      ultimately show "m j = NaN \<or> flt (m n) (m j)"
        using flt_total[of "m j" "m n"] nn by blast
    qed
    show ?thesis using new lt below first by blast
  next
    case False
    have keep: "running_best m (Suc n) = running_best m n"
      using False by (simp add: fgt_def)
    from Suc.IH show ?thesis
    proof
      assume a: "running_best m n = (PInf, PInf) \<and> (\<forall>j<n. \<not> flt (m j) PInf)"
      then have "\<not> flt (m n) PInf" using False by simp
      then have "\<forall>j<Suc n. \<not> flt (m j) PInf" using a by (simp add: less_Suc_eq)
      then show ?thesis using a keep by simp
    next
      assume "\<exists>k<n. running_best m n = (m k, Fin (real k / 100)) \<and> flt (m k) PInf \<and>
            (\<forall>j<n. \<not> flt (m j) (m k)) \<and> (\<forall>j<k. m j = NaN \<or> flt (m k) (m j))"
      then obtain k where k: "k < n" "running_best m n = (m k, Fin (real k / 100))"
        "flt (m k) PInf" "\<forall>j<n. \<not> flt (m j) (m k)" "\<forall>j<k. m j = NaN \<or> flt (m k) (m j)"
        by blast
      from False k(2) have "\<not> flt (m n) (m k)" by simp
      then have "\<forall>j<Suc n. \<not> flt (m j) (m k)" using k(4) by (simp add: less_Suc_eq)
      then show ?thesis using k keep by (metis less_Suc_eq)
    qed
  qed
qed

lemma select_threshold_eq:
  "select_threshold (self\<lparr>feature_clip := c, feature_clip_bottom := b\<rparr>, l) =
     self\<lparr>feature_clip :=
            (if cross_validate self = ''ece'' then C_opt_ece l
             else if cross_validate self = ''nll'' then C_opt_nll l else c),
          feature_clip_bottom := b\<rparr>"
  by (simp add: select_threshold_def)

lemma running_best_snd:
  "C_opt_nll (locals_after nl ec ac n) = snd (running_best nl n)"
  "C_opt_ece (locals_after nl ec ac n) = snd (running_best ec n)"
  by (simp_all add: locals_after_nll [of nl n ec ac] locals_after_ece [of ec n nl ac])

lemma fit_returns:
  assumes variant: "(fit, steps, x) = (set_feature_clip accuracy self F L y, 2000, F)
                  \<or> (fit, steps, x) = (set_feature_clip2 accuracy self F L y, 4000, L)"
    and returns: "\<forall>q<steps. metrics_at accuracy self x y q = Inr (nl q, ec q, ac q)"
  shows "fit = Inr (self\<lparr>feature_clip :=
                        (if cross_validate self = ''ece'' then snd (running_best ec steps)
                         else if cross_validate self = ''nll'' then snd (running_best nl steps)
                         else clip_after steps),
                      feature_clip_bottom := Some NInf\<rparr>)"
proof -
  have "scan accuracy steps x y self =
          Inr (self\<lparr>feature_clip := clip_after steps, feature_clip_bottom := Some NInf\<rparr>,
               locals_after nl ec ac steps)"
    using returns by (rule scan_returns)
  then show ?thesis
    using variant
    by (auto simp add: set_feature_clip_def set_feature_clip2_def select_threshold_eq
        running_best_snd)
qed

lemma for_each_invariant:
  assumes step: "\<And>q s s'. I s \<Longrightarrow> body q s = Inr s' \<Longrightarrow> I s'"
    and start: "I s" and run: "for_each qs body s = Inr s'"
  shows "I s'"
  using start run
proof (induction qs arbitrary: s)
  case Nil
  then show ?case by simp
next
  case (Cons q qs)
  then show ?case
    by (auto split: sum.splits intro: step)
qed

lemma loop_body_result:
  assumes "loop_body accuracy x y q (s, l) = Inr (s', l')"
  shows "s' = s\<lparr>feature_clip := Fin (real q / 100)\<rparr>
       \<and> (C_opt_nll l' = C_opt_nll l \<or> C_opt_nll l' = Fin (real q / 100))
       \<and> (C_opt_ece l' = C_opt_ece l \<or> C_opt_ece l' = Fin (real q / 100))"
  using assms
  by (auto simp add: loop_body_eq split: sum.splits)

lemma nonneg_candidate: "nonneg (Fin (real q / 100))"
  by (simp add: nonneg_def)

lemma nonneg_PInf: "nonneg PInf"
  by (simp add: nonneg_def)

lemma scan_inv_step:
  assumes "scan_inv self st" and "loop_body accuracy x y q st = Inr st'"
  shows "scan_inv self st'"
proof -
  obtain s l where st: "st = (s, l)" by (cases st)
  obtain s' l' where st': "st' = (s', l')" by (cases st')
  from loop_body_result [of accuracy x y q s l s' l'] assms(2) st st'
  have r: "s' = s\<lparr>feature_clip := Fin (real q / 100)\<rparr>"
    "C_opt_nll l' = C_opt_nll l \<or> C_opt_nll l' = Fin (real q / 100)"
    "C_opt_ece l' = C_opt_ece l \<or> C_opt_ece l' = Fin (real q / 100)" by simp_all
  from assms(1) st obtain c b where s: "s = self\<lparr>feature_clip := c, feature_clip_bottom := b\<rparr>"
    by (auto simp: scan_inv_def)
  have "s' = self\<lparr>feature_clip := Fin (real q / 100), feature_clip_bottom := b\<rparr>"
    using r(1) s by simp
  then have "\<exists>c b. s' = self\<lparr>feature_clip := c, feature_clip_bottom := b\<rparr>" by blast
  then show ?thesis
    using assms(1) r st st' nonneg_candidate [of q]
    by (auto simp: scan_inv_def)
qed

lemma scan_inv_scan:
  assumes "scan accuracy n x y self = Inr st"
  shows "scan_inv self st"
proof -
  have start: "scan_inv self (self\<lparr>feature_clip := PInf, feature_clip_bottom := Some NInf\<rparr>, initial_locals)"
    by (auto simp: scan_inv_def nonneg_PInf initial_locals_def)
  have run: "for_each [0..<n] (loop_body accuracy x y)
      (self\<lparr>feature_clip := PInf, feature_clip_bottom := Some NInf\<rparr>, initial_locals) = Inr st"
    using assms by (simp add: scan_def)
  show ?thesis
    by (rule for_each_invariant [where I = "scan_inv self" and body = "loop_body accuracy x y", OF _ start run])
       (rule scan_inv_step)
qed

lemma select_inv:
  assumes "scan_inv self st"
  shows "nonneg (feature_clip (select_threshold st))
       \<and> (\<exists>c b. select_threshold st = self\<lparr>feature_clip := c, feature_clip_bottom := b\<rparr>)"
proof -
  obtain s l where st: "st = (s, l)" by (cases st)
  from assms st obtain c b where s: "s = self\<lparr>feature_clip := c, feature_clip_bottom := b\<rparr>"
    by (auto simp: scan_inv_def)
  show ?thesis
    using assms unfolding st s select_threshold_eq scan_inv_def
    by auto
qed

lemma running_best_all_NaN:
  assumes "\<forall>q<n. \<not> flt (m q) PInf"
  shows "running_best m n = (PInf, PInf)"
  using running_best_inv [of m n] assms by auto

lemma running_best_const:
  assumes "0 < n" and "\<forall>q<n. m q = v" and "flt v PInf"
  shows "running_best m n = (v, Fin 0)"
proof -
  from running_best_inv [of m n] assms
  obtain k where k: "k < n" "running_best m n = (m k, Fin (real k / 100))"
    "\<forall>j<k. m j = NaN \<or> flt (m k) (m j)"
    by auto
  have "k = 0"
  proof (rule ccontr)
    assume "k \<noteq> 0"
    then have "0 < k" by simp
    with k(3) have "m 0 = NaN \<or> flt (m k) (m 0)" by blast
    moreover have "m 0 = v" "m k = v" using assms k(1) by auto
    ultimately show False using assms(3) flt_irrefl [of v] by auto
  qed
  then show ?thesis using k assms by simp
qed

lemma example_accuracy [simp]:
  "torch_accuracy (torch_clamp [[v]] lo hi) [1] = Inr (Fin 0)"
  "torch_accuracy (torch_clamp [] lo hi) [] = Inr NaN"
  by (simp_all add: torch_accuracy_def torch_clamp_def)

lemma example_metrics [simp]:
  "metrics_at torch_accuracy (example_calibrator e n cv) [[v]] [1] q = Inr (n, e, Fin 0)"
  "metrics_at torch_accuracy (example_calibrator2 e n cv) [[v]] [1] q = Inr (n, e, Fin 0)"
  by (simp_all add: metrics_at_def example_calibrator_def example_calibrator2_def
      init_calibrator_def init_calibrator2_def const_criterion_def example_network_def
      Identity_def)

lemma first_step_raises:
  assumes "body 0 s = Inl e"
  shows "for_each [0..<2000] body s = Inl e"
proof -
  have "[0..<2000] = 0 # [Suc 0..<2000]"
    by (rule upt_conv_Cons) simp
  then have "for_each [0..<2000] body s = for_each (0 # [Suc 0..<2000]) body s"
    by (simp only:)
  then show ?thesis
    using assms by (simp only: for_each.simps sum.case)
qed

lemma zero_width_raises:
  "set_feature_clip torch_accuracy (example_calibrator (Fin 0) (Fin 1) cv) [[]] L [1] =
     Inl (Exception ''IndexError: argmax(): Expected reduction dim 1 to have non-zero size'')"
proof -
  have "loop_body torch_accuracy [[]] [1] 0
          ((example_calibrator (Fin 0) (Fin 1) cv)
             \<lparr>feature_clip := PInf, feature_clip_bottom := Some NInf\<rparr>, initial_locals) =
        Inl (Exception ''IndexError: argmax(): Expected reduction dim 1 to have non-zero size'')"
    by (simp add: loop_body_def feature_clipping_def torch_clamp_def torch_accuracy_def
        example_calibrator_def init_calibrator_def const_criterion_def example_network_def)
  then show ?thesis
    by (simp add: set_feature_clip_def scan_def first_step_raises)
qed

lemma label_mismatch_raises:
  "set_feature_clip torch_accuracy (example_calibrator (Fin 0) (Fin 1) cv)
     [[Fin 5], [Fin 6]] L [1, 0, 1] =
     Inl (Exception ''RuntimeError: the sizes of the tensors must match'')"
proof -
  have "loop_body torch_accuracy [[Fin 5], [Fin 6]] [1, 0, 1] 0
          ((example_calibrator (Fin 0) (Fin 1) cv)
             \<lparr>feature_clip := PInf, feature_clip_bottom := Some NInf\<rparr>, initial_locals) =
        Inl (Exception ''RuntimeError: the sizes of the tensors must match'')"
    by (simp add: loop_body_def feature_clipping_def torch_clamp_def torch_accuracy_def
        example_calibrator_def init_calibrator_def const_criterion_def example_network_def)
  then show ?thesis
    by (simp add: set_feature_clip_def scan_def first_step_raises)
qed

lemma example_cross_validate [simp]:
  "cross_validate (example_calibrator e n cv) = cv"
  "cross_validate (example_calibrator2 e n cv) = cv"
  by (simp_all add: example_calibrator_def example_calibrator2_def
      init_calibrator_def init_calibrator2_def)

lemma mean_metrics [simp]:
  "metrics_at torch_accuracy (init_calibrator mean_criterion mean_criterion example_network cv)
     [] [] q = Inr (NaN, NaN, NaN)"
  "metrics_at torch_accuracy (init_calibrator2 mean_criterion mean_criterion example_network cv)
     [] [] q = Inr (NaN, NaN, NaN)"
  by (simp_all add: metrics_at_def init_calibrator_def init_calibrator2_def mean_criterion_def
      example_network_def Identity_def)

lemma init_cross_validate [simp]:
  "cross_validate (init_calibrator e n m cv) = cv"
  "cross_validate (init_calibrator2 e n m cv) = cv"
  by (simp_all add: init_calibrator_def init_calibrator2_def)

lemma fit_invariant:
  assumes "set_feature_clip accuracy self F L y = Inr c' \<or> set_feature_clip2 accuracy self F L y = Inr c'"
  shows "nonneg (feature_clip c')
       \<and> (\<exists>c b. c' = self\<lparr>feature_clip := c, feature_clip_bottom := b\<rparr>)"
proof -
  from assms obtain n x st where "scan accuracy n x y self = Inr st" "c' = select_threshold st"
    by (auto simp: set_feature_clip_def set_feature_clip2_def split: sum.splits)
  then show ?thesis
    using select_inv [OF scan_inv_scan] by blast
qed

lemma example_fit:
  "set_feature_clip torch_accuracy (example_calibrator (Fin 0) (Fin 1) ''ece'') [[v]] L [1] =
     Inr ((example_calibrator (Fin 0) (Fin 1) ''ece'')
            \<lparr>feature_clip := Fin 0, feature_clip_bottom := Some NInf\<rparr>)"
  "set_feature_clip2 torch_accuracy (example_calibrator2 (Fin 0) (Fin 1) ''ece'') F [[w]] [1] =
     Inr ((example_calibrator2 (Fin 0) (Fin 1) ''ece'')
            \<lparr>feature_clip := Fin 0, feature_clip_bottom := Some NInf\<rparr>)"
  "set_feature_clip2 torch_accuracy (example_calibrator (Fin 0) (Fin 1) ''ece'') F [[w]] [1] =
     Inr ((example_calibrator (Fin 0) (Fin 1) ''ece'')
            \<lparr>feature_clip := Fin 0, feature_clip_bottom := Some NInf\<rparr>)"
proof -
  have b: "running_best (\<lambda>q. Fin 0) n = (Fin 0, Fin 0)" if "0 < n" for n
    using that by (intro running_best_const) simp_all
  show "set_feature_clip torch_accuracy (example_calibrator (Fin 0) (Fin 1) ''ece'') [[v]] L [1] =
     Inr ((example_calibrator (Fin 0) (Fin 1) ''ece'')
            \<lparr>feature_clip := Fin 0, feature_clip_bottom := Some NInf\<rparr>)"
    using fit_returns
      [where accuracy = torch_accuracy and self = "example_calibrator (Fin 0) (Fin 1) ''ece''"
         and F = "[[v]]" and L = L and y = "[1]" and steps = 2000 and x = "[[v]]"
         and fit = "set_feature_clip torch_accuracy (example_calibrator (Fin 0) (Fin 1) ''ece'') [[v]] L [1]"
         and nl = "\<lambda>q. Fin 1" and ec = "\<lambda>q. Fin 0" and ac = "\<lambda>q. Fin 0"]
    by (simp add: b)
  show "set_feature_clip2 torch_accuracy (example_calibrator2 (Fin 0) (Fin 1) ''ece'') F [[w]] [1] =
     Inr ((example_calibrator2 (Fin 0) (Fin 1) ''ece'')
            \<lparr>feature_clip := Fin 0, feature_clip_bottom := Some NInf\<rparr>)"
    using fit_returns
      [where accuracy = torch_accuracy and self = "example_calibrator2 (Fin 0) (Fin 1) ''ece''"
         and F = F and L = "[[w]]" and y = "[1]" and steps = 4000 and x = "[[w]]"
         and fit = "set_feature_clip2 torch_accuracy (example_calibrator2 (Fin 0) (Fin 1) ''ece'') F [[w]] [1]"
         and nl = "\<lambda>q. Fin 1" and ec = "\<lambda>q. Fin 0" and ac = "\<lambda>q. Fin 0"]
    by (simp add: b)
  show "set_feature_clip2 torch_accuracy (example_calibrator (Fin 0) (Fin 1) ''ece'') F [[w]] [1] =
     Inr ((example_calibrator (Fin 0) (Fin 1) ''ece'')
            \<lparr>feature_clip := Fin 0, feature_clip_bottom := Some NInf\<rparr>)"
    using fit_returns
      [where accuracy = torch_accuracy and self = "example_calibrator (Fin 0) (Fin 1) ''ece''"
         and F = F and L = "[[w]]" and y = "[1]" and steps = 4000 and x = "[[w]]"
         and fit = "set_feature_clip2 torch_accuracy (example_calibrator (Fin 0) (Fin 1) ''ece'') F [[w]] [1]"
         and nl = "\<lambda>q. Fin 1" and ec = "\<lambda>q. Fin 0" and ac = "\<lambda>q. Fin 0"]
    by (simp add: b)
qed

lemma forward_eq:
  "forward s x = (classifier s (torch_clamp x (fneg (feature_clip s)) (feature_clip s)), s)"
  by (simp add: forward_def feature_clipping_def)

subsection \<open>The search of ModelWithFeatureClipping\<close>

text \<open>
  The lists that \<open>collect\<close> returns have one entry for each batch of the loader, so
  \<open>torch.cat\<close> raises exactly when the loader is empty; the loop is a single run of its body.
\<close>

lemma collect_length:
  assumes "collect m loader (a, b, c) = Inr (a', b', c')"
  shows "length a' = length a + length loader \<and> length b' = length b + length loader
       \<and> length c' = length c + length loader"
  using assms
proof (induction loader arbitrary: a b c)
  case Nil
  then show ?case by simp
next
  case (Cons batch rest)
  then show ?case
    by (auto split: sum.splits prod.splits)
qed

lemma range_one: "[0..<1] = [0]"
  by (simp add: upt_rec)

lemma wrapped_loop_body_result:
  assumes "wrapped_loop_body nll_crit ece_crit features labels_all q (self, wrapped_initial_locals)
             = Inr (s, l)"
  shows "s = self\<lparr>wrapped_feature_clip := Fin (1 / 100)\<rparr>
       \<and> (w_C_opt_nll l = PInf \<or> w_C_opt_nll l = Fin (1 / 100))
       \<and> (w_C_opt_ece l = PInf \<or> w_C_opt_ece l = Fin (1 / 100))"
  using assms
  by (auto simp add: wrapped_loop_body_def wrapped_initial_locals_def Let_def
      split: sum.splits if_splits)

lemma wrapped_nonneg:
  assumes "wrapped_set_feature_clip nll_crit ece_crit self valid_loader cv = Inr w"
  shows "nonneg (wrapped_feature_clip w)"
proof -
  from assms obtain features labels_all s l where
    body: "wrapped_loop_body nll_crit ece_crit features labels_all 0 (self, wrapped_initial_locals)
             = Inr (s, l)"
    and w: "w = (if cv = ''ece'' then s\<lparr>wrapped_feature_clip := w_C_opt_ece l\<rparr>
                 else s\<lparr>wrapped_feature_clip := w_C_opt_nll l\<rparr>)"
    by (auto simp add: wrapped_set_feature_clip_def range_one split: sum.splits prod.splits)
  from wrapped_loop_body_result [OF body] w show ?thesis
    by (auto simp: nonneg_def)
qed

lemma wrapped_returns:
  assumes collected: "collect (wrapped_model self) valid_loader ([], [], [])
                        = Inr (logits_list, labels_list, features_list)"
    and nonempty: "valid_loader \<noteq> []"
    and head: "network_classifier (wrapped_model self)
                 (torch_clamp (concat features_list) (Fin (- (1 / 100))) (Fin (1 / 100))) = Inr lg"
    and nll: "nll_crit lg (concat labels_list) = Inr n"
    and ece: "ece_crit lg (concat labels_list) = Inr e"
  shows "wrapped_set_feature_clip nll_crit ece_crit self valid_loader cv =
           Inr (self\<lparr>wrapped_feature_clip :=
                  (if cv = ''ece'' then (if flt e (Fin (10 ^ 7)) then Fin (1 / 100) else PInf)
                   else (if flt n (Fin (10 ^ 7)) then Fin (1 / 100) else PInf))\<rparr>)"
proof -
  from collect_length [OF collected] nonempty
  have ne: "logits_list \<noteq> []" "labels_list \<noteq> []" "features_list \<noteq> []"
    by auto
  show ?thesis
    using collected ne head nll ece
    by (simp add: wrapped_set_feature_clip_def torch_cat_def range_one wrapped_loop_body_def
        wrapped_initial_locals_def wrapped_classifier_def wrapped_feature_clipping_def
        fgt_def Let_def)
qed

lemma example_collect:
  "collect (wrapped_model (init_model_with_feature_clipping example_network)) [((), [1])]
     ([], [], []) = Inr ([[[Fin 2, Fin (- 2)]]], [[1]], [[[Fin 3, Fin (- 3)]]])"
  by (simp add: init_model_with_feature_clipping_def example_network_def)

lemma example_head:
  "network_classifier (wrapped_model (init_model_with_feature_clipping example_network)) t = Inr t"
  by (simp add: init_model_with_feature_clipping_def example_network_def)

subsection \<open>The clipping transform\<close>

text \<open>
  C3. With a non-negative threshold \<open>C\<close> in the threshold attribute,
  \<open>feature_clipping\<close> returns the elementwise clamp of its argument to \<open>[-C, C]\<close>: an element
  below \<open>-C\<close> becomes \<open>-C\<close>, an element above \<open>C\<close> becomes \<open>C\<close>, every other element (and
  NaN) is returned as it is; the object is the same afterwards. With the threshold \<open>+\<infinity>\<close> the
  argument is returned unchanged. Both hold for the method of the calibrators and for the
  method of ModelWithFeatureClipping.
\<close>

theorem feature_clipping_clamp:
  assumes "nonneg (feature_clip self)" and "nonneg (wrapped_feature_clip w)"
  shows "feature_clipping self X =
           (map (map (\<lambda>x. if x = NaN then NaN
                           else if flt x (fneg (feature_clip self)) then fneg (feature_clip self)
                           else if flt (feature_clip self) x then feature_clip self
                           else x)) X, self)
       \<and> wrapped_feature_clipping w X =
           (map (map (\<lambda>x. if x = NaN then NaN
                           else if flt x (fneg (wrapped_feature_clip w)) then fneg (wrapped_feature_clip w)
                           else if flt (wrapped_feature_clip w) x then wrapped_feature_clip w
                           else x)) X, w)
       \<and> feature_clipping (self\<lparr>feature_clip := PInf\<rparr>) X = (X, self\<lparr>feature_clip := PInf\<rparr>)
       \<and> wrapped_feature_clipping (w\<lparr>wrapped_feature_clip := PInf\<rparr>) X =
           (X, w\<lparr>wrapped_feature_clip := PInf\<rparr>)"
proof -
  have c: "nonneg c \<Longrightarrow> clamp1 (fneg c) c =
      (\<lambda>x. if x = NaN then NaN else if flt x (fneg c) then fneg c else if flt c x then c else x)" for c
  proof
    fix x assume "nonneg c"
    then show "clamp1 (fneg c) c x =
      (if x = NaN then NaN else if flt x (fneg c) then fneg c else if flt c x then c else x)"
      by (cases "x = NaN") (simp_all add: clamp1_cases, simp add: clamp1_def)
  qed
  show ?thesis
    using assms torch_clamp_inf
    by (simp add: feature_clipping_def wrapped_feature_clipping_def torch_clamp_def c)
qed

theorem feature_clipping_clamp_witness:
  "nonneg (feature_clip ((init_calibrator (const_criterion NaN) (const_criterion NaN) example_network ''ece'')\<lparr>feature_clip := Fin 1\<rparr>))
   \<and> nonneg (wrapped_feature_clip ((init_model_with_feature_clipping example_network)\<lparr>wrapped_feature_clip := Fin 2\<rparr>))
   \<and> fst (feature_clipping ((init_calibrator (const_criterion NaN) (const_criterion NaN) example_network ''ece'')\<lparr>feature_clip := Fin 1\<rparr>)
        [[Fin 3, Fin (- 3), NaN, Fin (1 / 2), PInf]]) = [[Fin 1, Fin (- 1), NaN, Fin (1 / 2), Fin 1]]
   \<and> fst (wrapped_feature_clipping ((init_model_with_feature_clipping example_network)\<lparr>wrapped_feature_clip := Fin 2\<rparr>)
        [[Fin 3, Fin (- 3), NaN, Fin (1 / 2), NInf]]) = [[Fin 2, Fin (- 2), NaN, Fin (1 / 2), Fin (- 2)]]"
  using feature_clipping_clamp [of "(init_calibrator (const_criterion NaN) (const_criterion NaN) example_network ''ece'')\<lparr>feature_clip := Fin 1\<rparr>"
      "(init_model_with_feature_clipping example_network)\<lparr>wrapped_feature_clip := Fin 2\<rparr>"]
  by (simp add: nonneg_def)

text \<open>
  C4. Clipping is idempotent: applying \<open>feature_clipping\<close> to its own result, with the same
  threshold, gives the same result (and leaves the object alone). This holds for every
  threshold, in particular for every non-negative one.
\<close>

theorem feature_clipping_idempotent:
  "feature_clipping self (fst (feature_clipping self X)) = feature_clipping self X
   \<and> wrapped_feature_clipping w (fst (wrapped_feature_clipping w X)) = wrapped_feature_clipping w X"
  by (simp add: feature_clipping_def wrapped_feature_clipping_def torch_clamp_idem)

subsection \<open>The values before the loop\<close>

text \<open>
  C5, as the claim states it, fails for ModelWithFeatureClipping: its two running-best
  accumulators do not start at \<open>+\<infinity>\<close>.
\<close>

theorem wrapped_initial_not_infinite:
  "w_nll_val wrapped_initial_locals \<noteq> PInf \<and> w_ece_val wrapped_initial_locals \<noteq> PInf"
  by (simp add: wrapped_initial_locals_def)

text \<open>
  C5, amended. Before the loop begins, FeatureClippingCalibrator and
  FeatureClippingCalibrator2 hold \<open>+\<infinity>\<close> in the running-best NLL, the running-best ECE and
  both best-threshold trackers (a scan of zero steps returns exactly these values);
  ModelWithFeatureClipping holds \<open>+\<infinity>\<close> in both best-threshold trackers and \<open>10 ** 7\<close> in
  the running-best NLL and the running-best ECE.
\<close>

theorem initial_values:
  "scan accuracy 0 x labels_val self =
     Inr (self\<lparr>feature_clip := PInf, feature_clip_bottom := Some NInf\<rparr>, initial_locals)
   \<and> nll_val initial_locals = PInf \<and> ece_val initial_locals = PInf
   \<and> C_opt_nll initial_locals = PInf \<and> C_opt_ece initial_locals = PInf
   \<and> w_nll_val wrapped_initial_locals = Fin 10000000
   \<and> w_ece_val wrapped_initial_locals = Fin 10000000
   \<and> w_C_opt_nll wrapped_initial_locals = PInf \<and> w_C_opt_ece wrapped_initial_locals = PInf"
  by (simp add: scan_def initial_locals_def wrapped_initial_locals_def)

subsection \<open>The threshold after the search\<close>

text \<open>
  C10. In FeatureClippingCalibrator and FeatureClippingCalibrator2, when the criterion is
  neither \<open>'ece'\<close> nor \<open>'nll'\<close> and every call of the scan returns (the classifier head,
  the two criteria and the accuracy expression, at each step),
  \<open>set_feature_clip\<close> returns without an error and leaves the threshold at the last scanned
  candidate, \<open>1999/100\<close> for the feature-space variant and \<open>3999/100\<close> for the logit-space
  variant, whatever the metric values were; this is not the pre-fit value \<open>+\<infinity>\<close>.
\<close>

theorem unknown_criterion_keeps_last_candidate:
  assumes variant:
      "(fit, steps, x, final) = (set_feature_clip accuracy self F L y, 2000, F, Fin (1999 / 100))
     \<or> (fit, steps, x, final) = (set_feature_clip2 accuracy self F L y, 4000, L, Fin (3999 / 100))"
    and returns: "\<forall>q<steps. metrics_at accuracy self x y q = Inr (nl q, ec q, ac q)"
    and other: "cross_validate self \<noteq> ''ece''" "cross_validate self \<noteq> ''nll''"
  shows "fit = Inr (self\<lparr>feature_clip := final, feature_clip_bottom := Some NInf\<rparr>)
       \<and> final \<noteq> PInf"
proof -
  have v: "(fit, steps, x) = (set_feature_clip accuracy self F L y, 2000, F)
         \<or> (fit, steps, x) = (set_feature_clip2 accuracy self F L y, 4000, L)"
    using variant by auto
  have "clip_after steps = final"
    using variant by (auto simp: clip_after_def)
  with fit_returns [OF v returns] other variant show ?thesis by auto
qed

theorem unknown_criterion_keeps_last_candidate_witness:
  "(\<forall>q. metrics_at torch_accuracy (example_calibrator (Fin 0) (Fin 1) ''acc'') [[Fin 5]] [1] q
       = Inr (Fin 1, Fin 0, Fin 0))
   \<and> cross_validate (example_calibrator (Fin 0) (Fin 1) ''acc'') \<noteq> ''ece''
   \<and> cross_validate (example_calibrator (Fin 0) (Fin 1) ''acc'') \<noteq> ''nll''
   \<and> set_feature_clip torch_accuracy (example_calibrator (Fin 0) (Fin 1) ''acc'') [[Fin 5]] [[Fin 7]] [1] =
       Inr ((example_calibrator (Fin 0) (Fin 1) ''acc'')
              \<lparr>feature_clip := Fin (1999 / 100), feature_clip_bottom := Some NInf\<rparr>)"
  using unknown_criterion_keeps_last_candidate
    [where fit = "set_feature_clip torch_accuracy (example_calibrator (Fin 0) (Fin 1) ''acc'')
                    [[Fin 5]] [[Fin 7]] [1]"
       and steps = 2000 and x = "[[Fin 5]]" and final = "Fin (1999 / 100)"
       and accuracy = torch_accuracy and self = "example_calibrator (Fin 0) (Fin 1) ''acc''"
       and F = "[[Fin 5]]" and L = "[[Fin 7]]" and y = "[1]"
       and nl = "\<lambda>q. Fin 1" and ec = "\<lambda>q. Fin 0" and ac = "\<lambda>q. Fin 0"]
  by simp

text \<open>
  C2. In a run of \<open>set_feature_clip\<close> in which every step returns and produces finite
  metric values, the
  candidate threshold of step \<open>q\<close> is \<open>q/100\<close> (the trace \<open>cs\<close> of the scan lists exactly these
  values, in order), and the threshold the call leaves in the object is \<open>q/100\<close> for some
  step \<open>q\<close> of the range.
\<close>

theorem threshold_is_scanned_candidate:
  assumes variant: "(fit, steps, x) = (set_feature_clip accuracy self F L y, 2000, F)
                  \<or> (fit, steps, x) = (set_feature_clip2 accuracy self F L y, 4000, L)"
    and returns: "\<forall>q<steps. metrics_at accuracy self x y q = Inr (nl q, ec q, ac q)"
    and finite: "\<forall>q<steps. \<exists>a b. nl q = Fin a \<and> ec q = Fin b"
  shows "\<exists>s l c'. scan accuracy steps x y self = Inr (s, l)
           \<and> cs l = map (\<lambda>q. Fin (real q / 100)) [0..<steps]
           \<and> fit = Inr c'
           \<and> (\<exists>q<steps. feature_clip c' = Fin (real q / 100))"
proof -
  have pos: "0 < steps" using variant by auto
  have sc: "scan accuracy steps x y self =
          Inr (self\<lparr>feature_clip := clip_after steps, feature_clip_bottom := Some NInf\<rparr>,
               locals_after nl ec ac steps)"
    using returns by (rule scan_returns)
  have best: "\<exists>k<steps. snd (running_best m steps) = Fin (real k / 100)"
    if "\<forall>q<steps. \<exists>a. m q = Fin a" for m
  proof -
    from that pos obtain a where "m 0 = Fin a" by blast
    then have "flt (m 0) PInf" by simp
    with running_best_inv [of m steps] pos show ?thesis by auto
  qed
  have "\<exists>k<steps. snd (running_best nl steps) = Fin (real k / 100)"
    using finite by (intro best) blast
  moreover have "\<exists>k<steps. snd (running_best ec steps) = Fin (real k / 100)"
    using finite by (intro best) blast
  moreover have "\<exists>k<steps. clip_after steps = Fin (real k / 100)"
    using pos by (auto simp: clip_after_def intro!: exI [of _ "steps - 1"])
  ultimately have "\<exists>q<steps.
      feature_clip (self\<lparr>feature_clip :=
                        (if cross_validate self = ''ece'' then snd (running_best ec steps)
                         else if cross_validate self = ''nll'' then snd (running_best nl steps)
                         else clip_after steps),
                      feature_clip_bottom := Some NInf\<rparr>) = Fin (real q / 100)"
    by simp
  with fit_returns [OF variant returns] sc locals_after_cs(1) [of nl ec ac steps]
  show ?thesis by blast
qed

theorem threshold_is_scanned_candidate_witness:
  "(\<forall>q. metrics_at torch_accuracy (example_calibrator2 (Fin 0) (Fin 1) ''ece'') [[Fin 7]] [1] q
       = Inr (Fin 1, Fin 0, Fin 0))
   \<and> (\<forall>q::nat. \<exists>a b. Fin 1 = Fin a \<and> Fin 0 = Fin b)
   \<and> (\<exists>s l c'. scan torch_accuracy 4000 [[Fin 7]] [1] (example_calibrator2 (Fin 0) (Fin 1) ''ece'') = Inr (s, l)
           \<and> cs l = map (\<lambda>q. Fin (real q / 100)) [0..<4000]
           \<and> set_feature_clip2 torch_accuracy (example_calibrator2 (Fin 0) (Fin 1) ''ece'') [[Fin 5]] [[Fin 7]] [1] = Inr c'
           \<and> (\<exists>q<4000. feature_clip c' = Fin (real q / 100)))"
  using threshold_is_scanned_candidate
    [where fit = "set_feature_clip2 torch_accuracy (example_calibrator2 (Fin 0) (Fin 1) ''ece'')
                    [[Fin 5]] [[Fin 7]] [1]"
       and steps = 4000 and x = "[[Fin 7]]"
       and accuracy = torch_accuracy and self = "example_calibrator2 (Fin 0) (Fin 1) ''ece''"
       and F = "[[Fin 5]]" and L = "[[Fin 7]]" and y = "[1]"
       and nl = "\<lambda>q. Fin 1" and ec = "\<lambda>q. Fin 0" and ac = "\<lambda>q. Fin 0"]
  by simp

subsection \<open>Which candidate is selected\<close>

text \<open>
  C1, as the claim states it, fails: not every sequence of metric values selects a scanned
  candidate. When the ECE is \<open>+\<infinity>\<close> at every step (all steps tie at the minimum), or the NLL
  is NaN at every step, no comparison \<open>running-best > value\<close> is ever true and the threshold
  is left at \<open>+\<infinity>\<close>, which is not the first candidate \<open>0/100\<close> nor any other.
\<close>

theorem first_minimum_counterexample:
  "map_sum id feature_clip
     (set_feature_clip torch_accuracy (example_calibrator PInf NaN ''ece'') [[Fin 5]] [[Fin 7]] [1]) = Inr PInf
   \<and> map_sum id feature_clip
     (set_feature_clip torch_accuracy (example_calibrator PInf NaN ''nll'') [[Fin 5]] [[Fin 7]] [1]) = Inr PInf"
proof -
  have e: "running_best (\<lambda>q. PInf) 2000 = (PInf, PInf)"
    by (rule running_best_all_NaN) simp
  have n: "running_best (\<lambda>q. NaN) 2000 = (PInf, PInf)"
    by (rule running_best_all_NaN) simp
  have "set_feature_clip torch_accuracy (example_calibrator PInf NaN cv) [[Fin 5]] [[Fin 7]] [1] =
      Inr ((example_calibrator PInf NaN cv)\<lparr>feature_clip :=
                        (if cv = ''ece'' then snd (running_best (\<lambda>q. PInf) 2000)
                         else if cv = ''nll'' then snd (running_best (\<lambda>q. NaN) 2000)
                         else clip_after 2000),
                      feature_clip_bottom := Some NInf\<rparr>)" for cv
    using fit_returns
      [where fit = "set_feature_clip torch_accuracy (example_calibrator PInf NaN cv)
                      [[Fin 5]] [[Fin 7]] [1]"
         and steps = 2000 and x = "[[Fin 5]]"
         and accuracy = torch_accuracy and self = "example_calibrator PInf NaN cv"
         and F = "[[Fin 5]]" and L = "[[Fin 7]]" and y = "[1]"
         and nl = "\<lambda>q. NaN" and ec = "\<lambda>q. PInf" and ac = "\<lambda>q. Fin 0"]
    by simp
  then show ?thesis by (simp add: e n)
qed

text \<open>
  C1, amended. The running bests are updated only under a strict comparison. In every run
  of \<open>set_feature_clip\<close> (either class) in which the calls of each step return: when the
  metric of the chosen criterion is below \<open>+\<infinity>\<close> at one step at least (so neither NaN nor
  \<open>+\<infinity>\<close> there), the selected threshold is \<open>k/100\<close> for the first step \<open>k\<close> that attains the
  minimum: no step has a smaller metric value, and no earlier step has the same value; in
  particular, when two thresholds give the same minimal ECE, the smaller one is chosen. When
  the metric is below \<open>+\<infinity>\<close> at no step, the threshold is left at \<open>+\<infinity>\<close>.
\<close>

theorem first_minimum_selected:
  assumes variant: "(fit, steps, x) = (set_feature_clip accuracy self F L y, 2000, F)
                  \<or> (fit, steps, x) = (set_feature_clip2 accuracy self F L y, 4000, L)"
    and returns: "\<forall>q<steps. metrics_at accuracy self x y q = Inr (nl q, ec q, ac q)"
    and criterion: "(cross_validate self, m) = (''ece'', ec)
                  \<or> (cross_validate self, m) = (''nll'', nl)"
  shows "((\<exists>q<steps. flt (m q) PInf) \<longrightarrow>
            (\<exists>c' k. fit = Inr c' \<and> k < steps \<and> feature_clip c' = Fin (real k / 100)
               \<and> flt (m k) PInf
               \<and> (\<forall>j<steps. \<not> flt (m j) (m k))
               \<and> (\<forall>j<k. m j \<noteq> m k)))
       \<and> ((\<forall>q<steps. \<not> flt (m q) PInf) \<longrightarrow>
            fit = Inr (self\<lparr>feature_clip := PInf, feature_clip_bottom := Some NInf\<rparr>))"
proof (intro conjI impI)
  assume some: "\<exists>q<steps. flt (m q) PInf"
  from running_best_inv [of m steps] some
  obtain k where k: "k < steps" "running_best m steps = (m k, Fin (real k / 100))"
    "flt (m k) PInf" "\<forall>j<steps. \<not> flt (m j) (m k)" "\<forall>j<k. m j = NaN \<or> flt (m k) (m j)"
    by blast
  have first: "\<forall>j<k. m j \<noteq> m k"
    using k(3,5) flt_irrefl [of "m k"] by auto
  have "feature_clip (self\<lparr>feature_clip :=
                        (if cross_validate self = ''ece'' then snd (running_best ec steps)
                         else if cross_validate self = ''nll'' then snd (running_best nl steps)
                         else clip_after steps),
                      feature_clip_bottom := Some NInf\<rparr>) = Fin (real k / 100)"
    using criterion k(2) by auto
  with fit_returns [OF variant returns] k(1,3,4) first
  show "\<exists>c' k. fit = Inr c' \<and> k < steps \<and> feature_clip c' = Fin (real k / 100)
               \<and> flt (m k) PInf
               \<and> (\<forall>j<steps. \<not> flt (m j) (m k))
               \<and> (\<forall>j<k. m j \<noteq> m k)"
    by blast
next
  assume none: "\<forall>q<steps. \<not> flt (m q) PInf"
  then have "running_best m steps = (PInf, PInf)"
    by (rule running_best_all_NaN)
  with fit_returns [OF variant returns] criterion
  show "fit = Inr (self\<lparr>feature_clip := PInf, feature_clip_bottom := Some NInf\<rparr>)"
    by auto
qed

theorem first_minimum_selected_witness:
  "(\<forall>q. metrics_at torch_accuracy (example_calibrator (Fin 0) (Fin 1) ''ece'') [[Fin 5]] [1] q
       = Inr (Fin 1, Fin 0, Fin 0))
   \<and> (\<exists>q<(2000::nat). flt (Fin 0) PInf)
   \<and> map_sum id feature_clip
       (set_feature_clip torch_accuracy (example_calibrator (Fin 0) (Fin 1) ''ece'')
          [[Fin 5]] [[Fin 7]] [1])
       = Inr (Fin 0)
   \<and> (\<forall>q. metrics_at torch_accuracy (example_calibrator NaN (Fin 1) ''ece'') [[Fin 5]] [1] q
       = Inr (Fin 1, NaN, Fin 0))
   \<and> (\<forall>q::nat. \<not> flt NaN PInf)
   \<and> set_feature_clip torch_accuracy (example_calibrator NaN (Fin 1) ''ece'')
        [[Fin 5]] [[Fin 7]] [1]
       = Inr ((example_calibrator NaN (Fin 1) ''ece'')
                \<lparr>feature_clip := PInf, feature_clip_bottom := Some NInf\<rparr>)"
proof -
  have some: "\<exists>q<(2000::nat). flt (Fin 0) PInf"
    by (intro exI [of _ 0]) simp
  from first_minimum_selected
    [where fit = "set_feature_clip torch_accuracy (example_calibrator (Fin 0) (Fin 1) ''ece'')
                    [[Fin 5]] [[Fin 7]] [1]"
       and steps = 2000 and x = "[[Fin 5]]"
       and accuracy = torch_accuracy and self = "example_calibrator (Fin 0) (Fin 1) ''ece''"
       and F = "[[Fin 5]]" and L = "[[Fin 7]]" and y = "[1]"
       and nl = "\<lambda>q. Fin 1" and ec = "\<lambda>q. Fin 0" and ac = "\<lambda>q. Fin 0"
       and m = "\<lambda>q. Fin 0"] some
  have "\<exists>c' k. set_feature_clip torch_accuracy (example_calibrator (Fin 0) (Fin 1) ''ece'')
                  [[Fin 5]] [[Fin 7]] [1] = Inr c'
           \<and> feature_clip c' = Fin (real k / 100) \<and> (\<forall>j<k. Fin 0 \<noteq> Fin 0)"
    by simp blast
  then obtain c' k where
    c: "set_feature_clip torch_accuracy (example_calibrator (Fin 0) (Fin 1) ''ece'')
          [[Fin 5]] [[Fin 7]] [1] = Inr c'"
       "feature_clip c' = Fin (real k / 100)" "\<forall>j<k. Fin 0 \<noteq> Fin 0"
    by blast
  from c(3) have "k = 0" by (cases k) auto
  with c(1,2) have one: "map_sum id feature_clip
       (set_feature_clip torch_accuracy (example_calibrator (Fin 0) (Fin 1) ''ece'')
          [[Fin 5]] [[Fin 7]] [1]) = Inr (Fin 0)"
    by simp
  from first_minimum_selected
    [where fit = "set_feature_clip torch_accuracy (example_calibrator NaN (Fin 1) ''ece'')
                    [[Fin 5]] [[Fin 7]] [1]"
       and steps = 2000 and x = "[[Fin 5]]"
       and accuracy = torch_accuracy and self = "example_calibrator NaN (Fin 1) ''ece''"
       and F = "[[Fin 5]]" and L = "[[Fin 7]]" and y = "[1]"
       and nl = "\<lambda>q. Fin 1" and ec = "\<lambda>q. NaN" and ac = "\<lambda>q. Fin 0"
       and m = "\<lambda>q. NaN"]
  have two: "set_feature_clip torch_accuracy (example_calibrator NaN (Fin 1) ''ece'')
        [[Fin 5]] [[Fin 7]] [1]
       = Inr ((example_calibrator NaN (Fin 1) ''ece'')
                \<lparr>feature_clip := PInf, feature_clip_bottom := Some NInf\<rparr>)"
    by simp
  show ?thesis
    using some one two by simp
qed

subsection \<open>An empty validation set\<close>

text \<open>
  C7, as the claim states it, fails: \<open>set_feature_clip\<close> has no check of the batch size and
  no "insufficient data" error. With tensors that have no row (and at least one column),
  with criteria that give NaN on an empty batch, and with the accuracy expression, whose
  mean over no row is NaN, the call returns normally and the threshold is \<open>+\<infinity>\<close>.
\<close>

theorem empty_validation_counterexample:
  "map_sum id feature_clip
     (set_feature_clip torch_accuracy (init_calibrator mean_criterion mean_criterion example_network ''nll'')
        [] [] []) = Inr PInf"
proof -
  have n: "running_best (\<lambda>q. NaN) 2000 = (PInf, PInf)"
    by (rule running_best_all_NaN) simp
  show ?thesis
    using fit_returns
      [where fit = "set_feature_clip torch_accuracy
                      (init_calibrator mean_criterion mean_criterion example_network ''nll'')
                      [] [] []"
         and steps = 2000 and x = "[]" and accuracy = torch_accuracy
         and self = "init_calibrator mean_criterion mean_criterion example_network ''nll''"
         and F = "[]" and L = "[]" and y = "[]"
         and nl = "\<lambda>q. NaN" and ec = "\<lambda>q. NaN" and ac = "\<lambda>q. NaN"]
    by (simp add: n)
qed

text \<open>
  C7, amended. Called with an empty validation set, \<open>set_feature_clip\<close> (either class) makes
  no check of the batch size: when the calls of each step return (the classifier head, the
  two criteria and the accuracy expression), it returns the calibrator; and when moreover
  the metric of the chosen criterion is NaN at every step, the threshold it leaves is
  \<open>+\<infinity>\<close>.
\<close>

theorem empty_validation_returns:
  assumes variant: "(fit, steps) = (set_feature_clip accuracy self [] [] [], 2000)
                  \<or> (fit, steps) = (set_feature_clip2 accuracy self [] [] [], 4000)"
    and returns: "\<forall>q<steps. metrics_at accuracy self [] [] q = Inr (nl q, ec q, ac q)"
  shows "(\<exists>c'. fit = Inr c')
       \<and> ((cross_validate self = ''ece'' \<and> (\<forall>q<steps. ec q = NaN)
           \<or> cross_validate self = ''nll'' \<and> (\<forall>q<steps. nl q = NaN))
          \<longrightarrow> fit = Inr (self\<lparr>feature_clip := PInf, feature_clip_bottom := Some NInf\<rparr>))"
proof -
  have v: "(fit, steps, []) = (set_feature_clip accuracy self [] [] [], 2000, [])
         \<or> (fit, steps, []) = (set_feature_clip2 accuracy self [] [] [], 4000, [])"
    using variant by auto
  note r = fit_returns [OF v returns]
  have nan: "running_best m steps = (PInf, PInf)" if "\<forall>q<steps. m q = NaN" for m
    by (rule running_best_all_NaN) (simp add: that)
  show ?thesis
  proof (intro conjI impI)
    show "\<exists>c'. fit = Inr c'" using r by blast
  next
    assume "cross_validate self = ''ece'' \<and> (\<forall>q<steps. ec q = NaN)
           \<or> cross_validate self = ''nll'' \<and> (\<forall>q<steps. nl q = NaN)"
    then show "fit = Inr (self\<lparr>feature_clip := PInf, feature_clip_bottom := Some NInf\<rparr>)"
      using r nan by auto
  qed
qed

theorem empty_validation_returns_witness:
  "(\<forall>q. metrics_at torch_accuracy (init_calibrator mean_criterion mean_criterion example_network ''ece'')
       [] [] q = Inr (NaN, NaN, NaN))
   \<and> (cross_validate (init_calibrator mean_criterion mean_criterion example_network ''ece'') = ''ece''
       \<and> (\<forall>q::nat. NaN = NaN))
   \<and> set_feature_clip torch_accuracy (init_calibrator mean_criterion mean_criterion example_network ''ece'') [] [] []
       = Inr ((init_calibrator mean_criterion mean_criterion example_network ''ece'')
                \<lparr>feature_clip := PInf, feature_clip_bottom := Some NInf\<rparr>)"
  using empty_validation_returns
    [where fit = "set_feature_clip torch_accuracy
                    (init_calibrator mean_criterion mean_criterion example_network ''ece'')
                    [] [] []"
       and steps = 2000 and accuracy = torch_accuracy
       and self = "init_calibrator mean_criterion mean_criterion example_network ''ece''"
       and nl = "\<lambda>q. NaN" and ec = "\<lambda>q. NaN" and ac = "\<lambda>q. NaN"]
  by simp

subsection \<open>Inference\<close>

text \<open>
  C8. \<open>forward\<close> returns the classifier head applied to the input clipped to \<open>[-C, C]\<close>, where
  \<open>C\<close> is the threshold held by the calibrator, and the calibrator is the same object
  afterwards: no attribute is changed. After a fit of a FeatureClippingCalibrator the head is
  still the classifier of the network; after a fit of a FeatureClippingCalibrator2 the head
  is still the identity, so \<open>forward\<close> returns the clipped input itself; before any fit a
  FeatureClippingCalibrator2 returns its input.
\<close>

theorem forward_clips_then_classifies:
  "forward self x =
     (classifier self (torch_clamp x (fneg (feature_clip self)) (feature_clip self)), self)
   \<and> (set_feature_clip accuracy (init_calibrator ece nll m cv) F L y = Inr c1 \<longrightarrow>
        forward c1 x =
          (network_classifier m (torch_clamp x (fneg (feature_clip c1)) (feature_clip c1)), c1))
   \<and> (set_feature_clip2 accuracy (init_calibrator2 ece nll m cv) F L y = Inr c2 \<longrightarrow>
        forward c2 x = (Inr (torch_clamp x (fneg (feature_clip c2)) (feature_clip c2)), c2))
   \<and> forward (init_calibrator2 ece nll m cv) x = (Inr x, init_calibrator2 ece nll m cv)"
proof -
  note fw = forward_eq
  have one: "classifier c1 = network_classifier m"
    if "set_feature_clip accuracy (init_calibrator ece nll m cv) F L y = Inr c1"
    using fit_invariant [of accuracy "init_calibrator ece nll m cv" F L y c1] that
    by (auto simp: init_calibrator_def)
  have two: "classifier c2 = Identity"
    if "set_feature_clip2 accuracy (init_calibrator2 ece nll m cv) F L y = Inr c2"
    using fit_invariant [of accuracy "init_calibrator2 ece nll m cv" F L y c2] that
    by (auto simp: init_calibrator2_def)
  have three: "forward (init_calibrator2 ece nll m cv) x = (Inr x, init_calibrator2 ece nll m cv)"
    using torch_clamp_inf [of x]
    by (simp add: fw init_calibrator2_def Identity_def)
  show ?thesis
    using one two three by (simp add: forward_eq Identity_def)
qed

theorem forward_clips_then_classifies_witness:
  "set_feature_clip torch_accuracy
       (init_calibrator (const_criterion (Fin 0)) (const_criterion (Fin 1)) example_network ''ece'')
       [[Fin 5]] [[Fin 7]] [1]
     = Inr ((example_calibrator (Fin 0) (Fin 1) ''ece'')
              \<lparr>feature_clip := Fin 0, feature_clip_bottom := Some NInf\<rparr>)
   \<and> set_feature_clip2 torch_accuracy
       (init_calibrator2 (const_criterion (Fin 0)) (const_criterion (Fin 1)) example_network ''ece'')
       [[Fin 5]] [[Fin 7]] [1]
     = Inr ((example_calibrator2 (Fin 0) (Fin 1) ''ece'')
              \<lparr>feature_clip := Fin 0, feature_clip_bottom := Some NInf\<rparr>)
   \<and> forward ((example_calibrator (Fin 0) (Fin 1) ''ece'')
              \<lparr>feature_clip := Fin 0, feature_clip_bottom := Some NInf\<rparr>) [[Fin 3, Fin (- 4)]]
     = (Inr [[Fin 0, Fin 0]], (example_calibrator (Fin 0) (Fin 1) ''ece'')
              \<lparr>feature_clip := Fin 0, feature_clip_bottom := Some NInf\<rparr>)
   \<and> forward ((example_calibrator2 (Fin 0) (Fin 1) ''ece'')
              \<lparr>feature_clip := Fin 0, feature_clip_bottom := Some NInf\<rparr>) [[Fin 3, Fin (- 4)]]
     = (Inr [[Fin 0, Fin 0]], (example_calibrator2 (Fin 0) (Fin 1) ''ece'')
              \<lparr>feature_clip := Fin 0, feature_clip_bottom := Some NInf\<rparr>)"
proof -
  have h1: "set_feature_clip torch_accuracy
       (init_calibrator (const_criterion (Fin 0)) (const_criterion (Fin 1)) example_network ''ece'')
       [[Fin 5]] [[Fin 7]] [1]
     = Inr ((example_calibrator (Fin 0) (Fin 1) ''ece'')
              \<lparr>feature_clip := Fin 0, feature_clip_bottom := Some NInf\<rparr>)"
    using example_fit(1) [of "Fin 5" "[[Fin 7]]"]
    by (simp add: example_calibrator_def)
  have h2: "set_feature_clip2 torch_accuracy
       (init_calibrator2 (const_criterion (Fin 0)) (const_criterion (Fin 1)) example_network ''ece'')
       [[Fin 5]] [[Fin 7]] [1]
     = Inr ((example_calibrator2 (Fin 0) (Fin 1) ''ece'')
              \<lparr>feature_clip := Fin 0, feature_clip_bottom := Some NInf\<rparr>)"
    using example_fit(2) [of "[[Fin 5]]" "Fin 7"]
    by (simp add: example_calibrator2_def)
  from forward_clips_then_classifies
    [where self = "example_calibrator (Fin 0) (Fin 1) ''ece''" and x = "[[Fin 3, Fin (- 4)]]"
       and accuracy = torch_accuracy
       and ece = "const_criterion (Fin 0)" and nll = "const_criterion (Fin 1)"
       and m = example_network and cv = "''ece''"
       and F = "[[Fin 5]]" and L = "[[Fin 7]]" and y = "[1]"
       and ?c1.0 = "(example_calibrator (Fin 0) (Fin 1) ''ece'')
              \<lparr>feature_clip := Fin 0, feature_clip_bottom := Some NInf\<rparr>"
       and ?c2.0 = "(example_calibrator2 (Fin 0) (Fin 1) ''ece'')
              \<lparr>feature_clip := Fin 0, feature_clip_bottom := Some NInf\<rparr>"] h1 h2
  show ?thesis
    by (simp add: example_network_def torch_clamp_def clamp1_def fmin_def fmax_def)
qed

subsection \<open>The single step of ModelWithFeatureClipping\<close>

text \<open>
  C6, as the claim states it, fails: a finite metric value is not enough. The running bests
  of this variant start at \<open>10 ** 7\<close>, so a finite NLL of \<open>2 * 10 ** 7\<close> at threshold 0.01 is
  never recorded, and with the criterion \<open>'nll'\<close> the fitted threshold is \<open>+\<infinity>\<close>, not 0.01.
\<close>

theorem wrapped_single_step_counterexample:
  "map_sum id wrapped_feature_clip
     (wrapped_set_feature_clip (const_criterion (Fin 20000000)) (const_criterion (Fin (1 / 2)))
        (init_model_with_feature_clipping example_network) [((), [1])] ''nll'') = Inr PInf"
  using wrapped_returns
    [where self = "init_model_with_feature_clipping example_network"
       and valid_loader = "[((), [1])]" and logits_list = "[[[Fin 2, Fin (- 2)]]]"
       and labels_list = "[[1]]" and features_list = "[[[Fin 3, Fin (- 3)]]]"
       and lg = "torch_clamp (concat [[[Fin 3, Fin (- 3)]]]) (Fin (- (1 / 100))) (Fin (1 / 100))"
       and nll_crit = "const_criterion (Fin 20000000)" and n = "Fin 20000000"
       and ece_crit = "const_criterion (Fin (1 / 2))" and e = "Fin (1 / 2)" and cv = "''nll''"]
    example_collect
  by (simp add: example_head const_criterion_def)

text \<open>
  C6, amended. For ModelWithFeatureClipping, when the loader is not empty, the collaborators
  return, and the NLL and the ECE at threshold 0.01 are both below \<open>10 ** 7\<close>, the fitted
  threshold after \<open>set_feature_clip\<close> is 0.01 whatever the criterion: the search is one step,
  at the candidate 0.01.
\<close>

theorem wrapped_single_step:
  assumes collected: "collect (wrapped_model self) valid_loader ([], [], [])
                        = Inr (logits_list, labels_list, features_list)"
    and nonempty: "valid_loader \<noteq> []"
    and head: "network_classifier (wrapped_model self)
                 (torch_clamp (concat features_list) (Fin (- (1 / 100))) (Fin (1 / 100))) = Inr lg"
    and nll: "nll_crit lg (concat labels_list) = Inr n"
    and ece: "ece_crit lg (concat labels_list) = Inr e"
    and below: "flt n (Fin (10 ^ 7))" "flt e (Fin (10 ^ 7))"
  shows "wrapped_set_feature_clip nll_crit ece_crit self valid_loader cv =
           Inr (self\<lparr>wrapped_feature_clip := Fin (1 / 100)\<rparr>)"
proof -
  have "wrapped_set_feature_clip nll_crit ece_crit self valid_loader cv =
           Inr (self\<lparr>wrapped_feature_clip :=
                  (if cv = ''ece'' then (if flt e (Fin (10 ^ 7)) then Fin (1 / 100) else PInf)
                   else (if flt n (Fin (10 ^ 7)) then Fin (1 / 100) else PInf))\<rparr>)"
    using collected nonempty head nll ece by (rule wrapped_returns)
  then show ?thesis using below by simp
qed

theorem wrapped_single_step_witness:
  "collect (wrapped_model (init_model_with_feature_clipping example_network)) [((), [1])]
     ([], [], []) = Inr ([[[Fin 2, Fin (- 2)]]], [[1]], [[[Fin 3, Fin (- 3)]]])
   \<and> [((), [1::int])] \<noteq> []
   \<and> network_classifier (wrapped_model (init_model_with_feature_clipping example_network))
        (torch_clamp (concat [[[Fin 3, Fin (- 3)]]]) (Fin (- (1 / 100))) (Fin (1 / 100)))
        = Inr [[Fin (1 / 100), Fin (- (1 / 100))]]
   \<and> const_criterion (Fin 2) [[Fin (1 / 100), Fin (- (1 / 100))]] (concat [[1]]) = Inr (Fin 2)
   \<and> const_criterion (Fin (1 / 2)) [[Fin (1 / 100), Fin (- (1 / 100))]] (concat [[1]])
        = Inr (Fin (1 / 2))
   \<and> flt (Fin 2) (Fin (10 ^ 7)) \<and> flt (Fin (1 / 2)) (Fin (10 ^ 7))
   \<and> wrapped_set_feature_clip (const_criterion (Fin 2)) (const_criterion (Fin (1 / 2)))
        (init_model_with_feature_clipping example_network) [((), [1])] ''nll''
        = Inr ((init_model_with_feature_clipping example_network)
                 \<lparr>wrapped_feature_clip := Fin (1 / 100)\<rparr>)"
proof -
  have head: "network_classifier (wrapped_model (init_model_with_feature_clipping example_network))
        (torch_clamp (concat [[[Fin 3, Fin (- 3)]]]) (Fin (- (1 / 100))) (Fin (1 / 100)))
        = Inr [[Fin (1 / 100), Fin (- (1 / 100))]]"
    by (simp add: example_head torch_clamp_def clamp1_def fmin_def fmax_def)
  have n: "const_criterion (Fin 2) [[Fin (1 / 100), Fin (- (1 / 100))]] (concat [[1]]) = Inr (Fin 2)"
    by (simp add: const_criterion_def)
  have e: "const_criterion (Fin (1 / 2)) [[Fin (1 / 100), Fin (- (1 / 100))]] (concat [[1]])
        = Inr (Fin (1 / 2))"
    by (simp add: const_criterion_def)
  have b: "flt (Fin 2) (Fin (10 ^ 7))" "flt (Fin (1 / 2)) (Fin (10 ^ 7))"
    by simp_all
  have ne: "[((), [1::int])] \<noteq> []"
    by simp
  have "wrapped_set_feature_clip (const_criterion (Fin 2)) (const_criterion (Fin (1 / 2)))
        (init_model_with_feature_clipping example_network) [((), [1])] ''nll''
        = Inr ((init_model_with_feature_clipping example_network)
                 \<lparr>wrapped_feature_clip := Fin (1 / 100)\<rparr>)"
    using example_collect ne head n e b by (rule wrapped_single_step)
  then show ?thesis
    using example_collect head n e b by simp
qed

subsection \<open>The threshold is never negative\<close>

text \<open>
  C9. The threshold is \<open>+\<infinity>\<close> right after construction, which is non-negative. After any
  number of steps of the scan, the threshold in the object and both best-threshold trackers
  are non-negative; and the threshold that a returning call of \<open>set_feature_clip\<close> leaves is
  non-negative, in each of the three classes.
\<close>

theorem threshold_never_negative:
  "feature_clip (init_calibrator ece nll m cv) = PInf
   \<and> feature_clip (init_calibrator2 ece nll m cv) = PInf
   \<and> wrapped_feature_clip (init_model_with_feature_clipping m) = PInf
   \<and> nonneg PInf
   \<and> (scan accuracy n x y self = Inr (s, l) \<longrightarrow>
        nonneg (feature_clip s) \<and> nonneg (C_opt_nll l) \<and> nonneg (C_opt_ece l))
   \<and> (set_feature_clip accuracy self F L y = Inr c1 \<longrightarrow> nonneg (feature_clip c1))
   \<and> (set_feature_clip2 accuracy self F L y = Inr c2 \<longrightarrow> nonneg (feature_clip c2))
   \<and> (wrapped_set_feature_clip nll_crit ece_crit w valid_loader cv' = Inr w' \<longrightarrow>
        nonneg (wrapped_feature_clip w'))"
proof -
  have a: "nonneg (feature_clip s) \<and> nonneg (C_opt_nll l) \<and> nonneg (C_opt_ece l)"
    if "scan accuracy n x y self = Inr (s, l)"
    using scan_inv_scan [OF that] by (simp add: scan_inv_def)
  have b: "nonneg (feature_clip c1)" if "set_feature_clip accuracy self F L y = Inr c1"
    using fit_invariant [of accuracy self F L y c1] that by simp
  have c: "nonneg (feature_clip c2)" if "set_feature_clip2 accuracy self F L y = Inr c2"
    using fit_invariant [of accuracy self F L y c2] that by simp
  show ?thesis
    using a b c wrapped_nonneg [of nll_crit ece_crit w valid_loader cv' w']
    by (simp add: init_calibrator_def init_calibrator2_def init_model_with_feature_clipping_def
        nonneg_PInf)
qed

theorem threshold_never_negative_witness:
  "scan torch_accuracy 2 [[Fin 5]] [1] (example_calibrator (Fin 0) (Fin 1) ''ece'') =
     Inr ((example_calibrator (Fin 0) (Fin 1) ''ece'')
            \<lparr>feature_clip := Fin (1 / 100), feature_clip_bottom := Some NInf\<rparr>,
          locals_after (\<lambda>q. Fin 1) (\<lambda>q. Fin 0) (\<lambda>q. Fin 0) 2)
   \<and> set_feature_clip torch_accuracy (example_calibrator (Fin 0) (Fin 1) ''ece'') [[Fin 5]] [[Fin 7]] [1] =
     Inr ((example_calibrator (Fin 0) (Fin 1) ''ece'')
            \<lparr>feature_clip := Fin 0, feature_clip_bottom := Some NInf\<rparr>)
   \<and> set_feature_clip2 torch_accuracy (example_calibrator (Fin 0) (Fin 1) ''ece'') [[Fin 5]] [[Fin 7]] [1] =
     Inr ((example_calibrator (Fin 0) (Fin 1) ''ece'')
            \<lparr>feature_clip := Fin 0, feature_clip_bottom := Some NInf\<rparr>)
   \<and> wrapped_set_feature_clip (const_criterion (Fin 2)) (const_criterion (Fin (1 / 2)))
        (init_model_with_feature_clipping example_network) [((), [1])] ''ece''
        = Inr ((init_model_with_feature_clipping example_network)
                 \<lparr>wrapped_feature_clip := Fin (1 / 100)\<rparr>)
   \<and> nonneg (Fin (1 / 100)) \<and> nonneg (Fin 0)
   \<and> nonneg (C_opt_nll (locals_after (\<lambda>q. Fin 1) (\<lambda>q. Fin 0) (\<lambda>q. Fin 0) 2))
   \<and> nonneg (C_opt_ece (locals_after (\<lambda>q. Fin 1) (\<lambda>q. Fin 0) (\<lambda>q. Fin 0) 2))"
proof -
  have h1: "scan torch_accuracy 2 [[Fin 5]] [1] (example_calibrator (Fin 0) (Fin 1) ''ece'') =
     Inr ((example_calibrator (Fin 0) (Fin 1) ''ece'')
            \<lparr>feature_clip := Fin (1 / 100), feature_clip_bottom := Some NInf\<rparr>,
          locals_after (\<lambda>q. Fin 1) (\<lambda>q. Fin 0) (\<lambda>q. Fin 0) 2)"
    using scan_returns
      [where n = 2 and accuracy = torch_accuracy
         and self = "example_calibrator (Fin 0) (Fin 1) ''ece''" and x = "[[Fin 5]]" and y = "[1]"
         and nl = "\<lambda>q. Fin 1" and ec = "\<lambda>q. Fin 0" and ac = "\<lambda>q. Fin 0"]
    by (simp add: clip_after_def)
  have h2: "set_feature_clip torch_accuracy (example_calibrator (Fin 0) (Fin 1) ''ece'') [[Fin 5]] [[Fin 7]] [1] =
     Inr ((example_calibrator (Fin 0) (Fin 1) ''ece'')
            \<lparr>feature_clip := Fin 0, feature_clip_bottom := Some NInf\<rparr>)"
    by (rule example_fit)
  have h3: "set_feature_clip2 torch_accuracy (example_calibrator (Fin 0) (Fin 1) ''ece'') [[Fin 5]] [[Fin 7]] [1] =
     Inr ((example_calibrator (Fin 0) (Fin 1) ''ece'')
            \<lparr>feature_clip := Fin 0, feature_clip_bottom := Some NInf\<rparr>)"
    by (rule example_fit)
  have h4: "wrapped_set_feature_clip (const_criterion (Fin 2)) (const_criterion (Fin (1 / 2)))
        (init_model_with_feature_clipping example_network) [((), [1])] ''ece''
        = Inr ((init_model_with_feature_clipping example_network)
                 \<lparr>wrapped_feature_clip := Fin (1 / 100)\<rparr>)"
    using wrapped_returns
      [where self = "init_model_with_feature_clipping example_network"
         and valid_loader = "[((), [1])]" and logits_list = "[[[Fin 2, Fin (- 2)]]]"
         and labels_list = "[[1]]" and features_list = "[[[Fin 3, Fin (- 3)]]]"
         and lg = "torch_clamp (concat [[[Fin 3, Fin (- 3)]]]) (Fin (- (1 / 100))) (Fin (1 / 100))"
         and nll_crit = "const_criterion (Fin 2)" and n = "Fin 2"
         and ece_crit = "const_criterion (Fin (1 / 2))" and e = "Fin (1 / 2)" and cv = "''ece''"]
      example_collect
    by (simp add: example_head const_criterion_def)
  from threshold_never_negative
    [where ece = "const_criterion (Fin 0)" and nll = "const_criterion (Fin 1)"
       and m = example_network and cv = "''ece''" and accuracy = torch_accuracy
       and n = 2 and x = "[[Fin 5]]" and y = "[1]"
       and self = "example_calibrator (Fin 0) (Fin 1) ''ece''"
       and s = "(example_calibrator (Fin 0) (Fin 1) ''ece'')
            \<lparr>feature_clip := Fin (1 / 100), feature_clip_bottom := Some NInf\<rparr>"
       and l = "locals_after (\<lambda>q. Fin 1) (\<lambda>q. Fin 0) (\<lambda>q. Fin 0) 2"
       and F = "[[Fin 5]]" and L = "[[Fin 7]]"
       and ?c1.0 = "(example_calibrator (Fin 0) (Fin 1) ''ece'')
            \<lparr>feature_clip := Fin 0, feature_clip_bottom := Some NInf\<rparr>"
       and ?c2.0 = "(example_calibrator (Fin 0) (Fin 1) ''ece'')
            \<lparr>feature_clip := Fin 0, feature_clip_bottom := Some NInf\<rparr>"
       and nll_crit = "const_criterion (Fin 2)" and ece_crit = "const_criterion (Fin (1 / 2))"
       and w = "init_model_with_feature_clipping example_network"
       and valid_loader = "[((), [1])]" and cv' = "''ece''"
       and w' = "(init_model_with_feature_clipping example_network)
                 \<lparr>wrapped_feature_clip := Fin (1 / 100)\<rparr>"]
    h1 h2 h3 h4
  show ?thesis by simp
qed

end
